theory Spec2Isabelle
  imports Complex_Main
begin

section \<open>Strings\<close>

text \<open>
  A JavaScript string is a sequence of UTF-16 code units. The model covers the strings
  whose code units are all below 256 (ASCII and Latin-1): a \<^typ>\<open>char\<close> is one code
  unit, \<open>length\<close> is \<open>String.prototype.length\<close>. The texts of the recommendations
  are never read back by the program; they are kept as the bytes of their UTF-8
  encoding, so that the three coloured circles of the source can be written down.
\<close>

definition red_circle :: string where
  "red_circle = [char_of (240::nat), char_of (159::nat), char_of (148::nat), char_of (180::nat)]"

definition green_circle :: string where
  "green_circle = [char_of (240::nat), char_of (159::nat), char_of (159::nat), char_of (162::nat)]"

definition white_circle :: string where
  "white_circle = [char_of (226::nat), char_of (154::nat), char_of (170::nat)]"

text \<open>\<open>String.prototype.toLowerCase\<close> on code units below 256: A-Z and the capital
  letters of Latin-1 (U+00C0 to U+00DE, the multiplication sign U+00D7 apart) move up
  by 32.\<close>

definition lower_unit :: "char \<Rightarrow> char" where
  "lower_unit c =
     (let n = (of_char c :: nat)
      in if (65 \<le> n \<and> n \<le> 90) \<or> (192 \<le> n \<and> n \<le> 222 \<and> n \<noteq> 215)
         then char_of (n + 32) else c)"

definition toLowerCase :: "string \<Rightarrow> string" where
  "toLowerCase s = map lower_unit s"

text \<open>\<open>s.startsWith(p)\<close> and \<open>s.includes(k)\<close>.\<close>

definition startsWith :: "string \<Rightarrow> string \<Rightarrow> bool" where
  "startsWith s p = (take (length p) s = p)"

fun includes_str :: "string \<Rightarrow> string \<Rightarrow> bool" where
  "includes_str [] k = (k = [])"
| "includes_str (c # s) k = (startsWith (c # s) k \<or> includes_str s k)"

text \<open>\<open>String.prototype.trim\<close> removes white space and line terminators at both
  ends; below 256 these are TAB, LF, VT, FF, CR, SPACE and NBSP.\<close>

definition isWhiteSpace :: "char \<Rightarrow> bool" where
  "isWhiteSpace c = ((of_char c :: nat) \<in> {9, 10, 11, 12, 13, 32, 160})"

definition trim :: "string \<Rightarrow> string" where
  "trim s = rev (dropWhile isWhiteSpace (rev (dropWhile isWhiteSpace s)))"

text \<open>The decimal digits of a natural number, as a template literal prints a count
  or a length.\<close>

definition digit_char :: "nat \<Rightarrow> char" where
  "digit_char d = char_of (48 + d)"

fun show_nat :: "nat \<Rightarrow> string" where
  "show_nat n = (if n < 10 then [digit_char n] else show_nat (n div 10) @ [digit_char (n mod 10)])"

declare show_nat.simps [simp del]

section \<open>Recommendations\<close>

datatype severity = Good | Bad | Info

text \<open>One list item of the results list: \<open>innerHTML\<close> and the second word of
  \<open>className\<close>.\<close>

record recommendation =
  innerHTML :: string
  className :: severity

text \<open>\<open>addRecommendation(text, type)\<close> appends one item to \<open>resultsList\<close>; the list
  is passed in and returned.\<close>

definition addRecommendation :: "string \<Rightarrow> severity \<Rightarrow> recommendation list \<Rightarrow> recommendation list" where
  "addRecommendation txt ty resultsList = resultsList @ [\<lparr>innerHTML = txt, className = ty\<rparr>]"

section \<open>Check 1: the page title\<close>

definition checkTitle :: "string \<Rightarrow> string \<Rightarrow> recommendation list \<Rightarrow> recommendation list" where
  "checkTitle title keyword rl =
     (if title = [] then
        addRecommendation (red_circle @ '' <strong>Page Title:</strong> You are missing a page title (H1). This is a critical SEO element.'') Bad rl
      else
        let rl1 =
          (if length title < 30 \<or> length title > 60 then
             addRecommendation (red_circle @ '' <strong>Page Title:</strong> Your title is '' @ show_nat (length title) @ '' characters. Aim for 30-60 characters.'') Bad rl
           else
             addRecommendation (green_circle @ '' <strong>Page Title:</strong> Your title length is good.'') Good rl)
        in
          if keyword \<noteq> [] \<and> includes_str (toLowerCase title) keyword then
            addRecommendation (green_circle @ '' <strong>Page Title:</strong> Your focus keyword is in the title. Great!'') Good rl1
          else if keyword \<noteq> [] then
            addRecommendation (red_circle @ '' <strong>Page Title:</strong> Your focus keyword was not found in the title. Try to add it near the beginning.'') Bad rl1
          else rl1)"

section \<open>The parsed document\<close>

text \<open>
  The markup parser is outside the program. Of the document it returns, the checks
  read the result of \<open>querySelectorAll\<close> for a tag, in document order, and the
  attributes of each element found: an element is its attribute list, and
  \<open>getAttribute\<close> is \<open>null\<close> (\<open>None\<close>) for an attribute the element does not have.
\<close>

type_synonym element = "(string \<times> string) list"

record document =
  anchors :: "element list"
  imgs :: "element list"

definition getAttribute :: "element \<Rightarrow> string \<Rightarrow> string option" where
  "getAttribute el name = map_of el name"

section \<open>Check 7: links\<close>

text \<open>The body of the \<open>forEach\<close> over the links: the two counters are the state.\<close>

definition countLink :: "element \<Rightarrow> nat \<times> nat \<Rightarrow> nat \<times> nat" where
  "countLink link counters =
     (case counters of (externalLinks, internalLinks) \<Rightarrow>
        (case getAttribute link ''href'' of
           None \<Rightarrow> (externalLinks, internalLinks)
         | Some href \<Rightarrow>
             if href \<noteq> [] then
               if startsWith href ''http://'' \<or> startsWith href ''https://'' then
                 (externalLinks + 1, internalLinks)
               else if startsWith href ''/'' \<or> startsWith href ''#'' then
                 (externalLinks, internalLinks + 1)
               else (externalLinks, internalLinks)
             else (externalLinks, internalLinks)))"

definition checkLinks :: "document \<Rightarrow> recommendation list \<Rightarrow> recommendation list" where
  "checkLinks doc rl =
     (let links = anchors doc;
          (externalLinks, internalLinks) = fold countLink links (0, 0);
          rl1 =
            (if externalLinks = 0 then
               addRecommendation (white_circle @ '' <strong>Outbound Links:</strong> You have no outbound links. Try linking to other high-authority websites.'') Info rl
             else
               addRecommendation (green_circle @ '' <strong>Outbound Links:</strong> You have '' @ show_nat externalLinks @ '' outbound link(s).'') Good rl)
      in
        if internalLinks = 0 then
          addRecommendation (red_circle @ '' <strong>Internal Links:</strong> You have no internal links. Link to other pages on your own site.'') Bad rl1
        else
          addRecommendation (green_circle @ '' <strong>Internal Links:</strong> You have '' @ show_nat internalLinks @ '' internal link(s).'') Good rl1)"

section \<open>Check 8: image alt tags\<close>

definition countMissingAlt :: "element \<Rightarrow> nat \<Rightarrow> nat" where
  "countMissingAlt img missingAltTags =
     (case getAttribute img ''alt'' of
        None \<Rightarrow> missingAltTags + 1
      | Some alt \<Rightarrow> if alt = [] \<or> trim alt = [] then missingAltTags + 1 else missingAltTags)"

definition checkImages :: "document \<Rightarrow> recommendation list \<Rightarrow> recommendation list" where
  "checkImages doc rl =
     (let images = imgs doc in
      if length images = 0 then
        addRecommendation (white_circle @ '' <strong>Images:</strong> Your content doesn't seem to have any images. Consider adding some.'') Info rl
      else
        let missingAltTags = fold countMissingAlt images 0 in
        if missingAltTags > 0 then
          addRecommendation (red_circle @ '' <strong>Image SEO:</strong> You have '' @ show_nat missingAltTags @ '' image(s) missing an 'alt' tag. Add descriptive alt tags to all images.'') Bad rl
        else
          addRecommendation (green_circle @ '' <strong>Image SEO:</strong> All '' @ show_nat (length images) @ '' image(s) have alt tags. Well done!'') Good rl)"

section \<open>The claims' words for links and images\<close>

text \<open>A link is external when its target starts with \<open>http://\<close> or \<open>https://\<close>,
  internal when it starts with \<open>/\<close> or \<open>#\<close>; an image misses its alternative text
  when the attribute is absent or trims to the empty string.\<close>

definition external_target :: "element \<Rightarrow> bool" where
  "external_target link =
     (case getAttribute link ''href'' of
        None \<Rightarrow> False
      | Some href \<Rightarrow> startsWith href ''http://'' \<or> startsWith href ''https://'')"

definition internal_target :: "element \<Rightarrow> bool" where
  "internal_target link =
     (case getAttribute link ''href'' of
        None \<Rightarrow> False
      | Some href \<Rightarrow> startsWith href ''/'' \<or> startsWith href ''#'')"

definition alt_missing :: "element \<Rightarrow> bool" where
  "alt_missing img =
     (case getAttribute img ''alt'' of None \<Rightarrow> True | Some alt \<Rightarrow> trim alt = [])"

section \<open>Numbers\<close>

text \<open>
  A Number is a binary64 value. A finite one is kept as the rational it denotes, so
  the two zeros are one value: the program never divides by a zero that could be
  negative. Arithmetic computes in the rationals and rounds the result with \<open>fl\<close>.
\<close>

datatype number = NaN | Infinity | NegInfinity | Fin rat

text \<open>\<open>ilog2 a\<close> is the binary exponent of a positive rational: \<open>2^e \<le> a < 2^(e+1)\<close>.\<close>

fun bitlen_nat :: "nat \<Rightarrow> nat" where
  "bitlen_nat n = (if n = 0 then 0 else Suc (bitlen_nat (n div 2)))"

declare bitlen_nat.simps [simp del]

definition ilog2 :: "rat \<Rightarrow> int" where
  "ilog2 a = (if 1 \<le> a then int (bitlen_nat (nat \<lfloor>a\<rfloor>)) - 1
              else - int (bitlen_nat (nat (\<lceil>1 / a\<rceil> - 1))))"

definition pow2 :: "int \<Rightarrow> rat" where
  "pow2 q = (if 0 \<le> q then 2 ^ nat q else 1 / 2 ^ nat (- q))"

definition round_half_even :: "rat \<Rightarrow> int" where
  "round_half_even y =
     (let f = \<lfloor>y\<rfloor>; r = y - of_int f
      in if r < 1 / 2 then f else if 1 / 2 < r then f + 1 else if even f then f else f + 1)"

text \<open>Rounding a positive rational to the nearest binary64 value, ties to even: the
  quantum is the weight of the last of the 53 bits of the significand, and never below
  that of the subnormal numbers.\<close>

definition quantum :: "rat \<Rightarrow> int" where
  "quantum a = max (ilog2 a - 52) (- 1074)"

definition round_to_quantum :: "rat \<Rightarrow> rat" where
  "round_to_quantum a = of_int (round_half_even (a / pow2 (quantum a))) * pow2 (quantum a)"

text \<open>The number a real value rounds to: a value that rounds to \<open>2^1024\<close> or more
  overflows to an infinity.\<close>

definition fl :: "rat \<Rightarrow> number" where
  "fl x =
     (if x = 0 then Fin 0
      else
        let r = round_to_quantum \<bar>x\<bar>
        in if 1024 \<le> ilog2 r then (if x < 0 then NegInfinity else Infinity)
           else Fin (if x < 0 then - r else r))"

definition is_neg :: "number \<Rightarrow> bool" where
  "is_neg x = (case x of NegInfinity \<Rightarrow> True | Fin r \<Rightarrow> r < 0 | _ \<Rightarrow> False)"

definition js_mul :: "number \<Rightarrow> number \<Rightarrow> number" where
  "js_mul x y =
     (if x = NaN \<or> y = NaN then NaN
      else case (x, y) of
        (Fin a, Fin b) \<Rightarrow> fl (a * b)
      | _ \<Rightarrow> if x = Fin 0 \<or> y = Fin 0 then NaN
             else if is_neg x = is_neg y then Infinity else NegInfinity)"

definition js_div :: "number \<Rightarrow> number \<Rightarrow> number" where
  "js_div x y =
     (if x = NaN \<or> y = NaN then NaN
      else case (x, y) of
        (Fin a, Fin b) \<Rightarrow>
          if b = 0 then (if a = 0 then NaN else if a < 0 then NegInfinity else Infinity)
          else fl (a / b)
      | (Fin a, _) \<Rightarrow> Fin 0
      | (_, Fin b) \<Rightarrow> if is_neg x = is_neg y then Infinity else NegInfinity
      | _ \<Rightarrow> NaN)"

definition js_lt :: "number \<Rightarrow> number \<Rightarrow> bool" where
  "js_lt x y =
     (case (x, y) of
        (NaN, _) \<Rightarrow> False
      | (_, NaN) \<Rightarrow> False
      | (Fin a, Fin b) \<Rightarrow> a < b
      | (NegInfinity, NegInfinity) \<Rightarrow> False
      | (NegInfinity, _) \<Rightarrow> True
      | (Fin a, Infinity) \<Rightarrow> True
      | _ \<Rightarrow> False)"

definition js_le :: "number \<Rightarrow> number \<Rightarrow> bool" where
  "js_le x y = (x \<noteq> NaN \<and> y \<noteq> NaN \<and> \<not> js_lt y x)"

definition js_gt :: "number \<Rightarrow> number \<Rightarrow> bool" where
  "js_gt x y = js_lt y x"

definition js_ge :: "number \<Rightarrow> number \<Rightarrow> bool" where
  "js_ge x y = js_le y x"

subsection \<open>Number to string\<close>

text \<open>\<open>Number::toString\<close> for a finite number of magnitude at least \<open>10^21\<close> (an integer):
  the shortest digit string \<open>s\<close> of \<open>k\<close> digits with \<open>s * 10^(n - k)\<close> rounding to the
  number, the closest one if there are two, printed with an exponent.\<close>

definition roundtrips :: "rat \<Rightarrow> nat \<Rightarrow> nat \<Rightarrow> bool" where
  "roundtrips a s p = (fl (of_nat s * 10 ^ p) = Fin a)"

fun shortest :: "rat \<Rightarrow> nat \<Rightarrow> nat \<Rightarrow> nat \<Rightarrow> nat \<times> nat" where
  "shortest a n0 k 0 = (nat \<lfloor>a / 10 ^ (n0 - k)\<rfloor>, n0)"
| "shortest a n0 k (Suc fuel) =
     (let p = n0 - k;
          s1 = nat \<lfloor>a / 10 ^ p\<rfloor>;
          s2 = s1 + 1;
          ok1 = roundtrips a s1 p;
          ok2 = roundtrips a s2 p;
          d1 = a - of_nat s1 * 10 ^ p;
          d2 = of_nat s2 * 10 ^ p - a;
          up = (if s2 = 10 ^ k then (10 ^ (k - 1), n0 + 1) else (s2, n0))
      in if ok1 \<and> ok2 then (if d1 < d2 \<or> (d1 = d2 \<and> even s1) then (s1, n0) else up)
         else if ok1 then (s1, n0)
         else if ok2 then up
         else shortest a n0 (k + 1) fuel)"

definition Number_toString_large :: "rat \<Rightarrow> string" where
  "Number_toString_large a =
     (let n0 = length (show_nat (nat \<lfloor>a\<rfloor>));
          (s, n) = shortest a n0 1 17;
          ds = show_nat s
      in (if length ds = 1 then ds else hd ds # CHR ''.'' # tl ds) @ ''e+'' @ show_nat (n - 1))"

text \<open>\<open>Number.prototype.toFixed(f)\<close>, for the \<open>f\<close> of the program (0, 2 and 3):
  below \<open>10^21\<close> the integer \<open>n\<close> nearest to \<open>x * 10^f\<close>, the larger one on a tie,
  printed with \<open>f\<close> digits after the point.\<close>

definition toFixed :: "nat \<Rightarrow> number \<Rightarrow> string" where
  "toFixed f x =
     (case x of
        NaN \<Rightarrow> ''NaN''
      | Infinity \<Rightarrow> ''Infinity''
      | NegInfinity \<Rightarrow> ''-Infinity''
      | Fin r \<Rightarrow>
          let s = (if r < 0 then ''-'' else '''');
              a = \<bar>r\<bar>
          in if 10 ^ 21 \<le> a then s @ Number_toString_large a
             else
               let n = nat \<lfloor>a * 10 ^ f + 1 / 2\<rfloor>;
                   m = show_nat n;
                   m' = (if f \<noteq> 0 \<and> length m \<le> f then replicate (f + 1 - length m) CHR ''0'' @ m else m)
               in if f \<noteq> 0 then s @ take (length m' - f) m' @ ''.'' @ drop (length m' - f) m'
                  else s @ m')"

subsection \<open>String to number\<close>

text \<open>\<open>StringToNumber\<close>, the conversion of a string that meets a number in a
  comparison or in arithmetic: white space is trimmed, the empty string is 0, a literal
  with a radix prefix has no sign, a decimal literal may have a sign, a fraction and an
  exponent, and every other string is NaN. The value of a literal is rounded exactly.\<close>

definition is_digit :: "char \<Rightarrow> bool" where
  "is_digit c = (48 \<le> (of_char c :: nat) \<and> (of_char c :: nat) \<le> 57)"

definition digit_value :: "char \<Rightarrow> nat" where
  "digit_value c =
     (let n = (of_char c :: nat)
      in if 48 \<le> n \<and> n \<le> 57 then n - 48
         else if 97 \<le> n \<and> n \<le> 102 then n - 87
         else if 65 \<le> n \<and> n \<le> 70 then n - 55
         else 16)"

definition digits_value :: "nat \<Rightarrow> string \<Rightarrow> nat" where
  "digits_value base ds = foldl (\<lambda>v c. v * base + digit_value c) 0 ds"

definition radix_literal :: "nat \<Rightarrow> string \<Rightarrow> number" where
  "radix_literal base ds =
     (if ds \<noteq> [] \<and> list_all (\<lambda>c. digit_value c < base) ds then fl (of_nat (digits_value base ds)) else NaN)"

definition exponent_part :: "string \<Rightarrow> int option" where
  "exponent_part s =
     (case s of
        [] \<Rightarrow> Some 0
      | c # r \<Rightarrow>
          if c = CHR ''e'' \<or> c = CHR ''E'' then
            (let (neg, ds) = (case r of [] \<Rightarrow> (False, [])
                               | d # r' \<Rightarrow> if d = CHR ''-'' then (True, r') else if d = CHR ''+'' then (False, r') else (False, r))
             in if ds \<noteq> [] \<and> list_all is_digit ds
                then Some (if neg then - int (digits_value 10 ds) else int (digits_value 10 ds))
                else None)
          else None)"

definition unsigned_decimal :: "string \<Rightarrow> rat option" where
  "unsigned_decimal s =
     (let ip = takeWhile is_digit s;
          r1 = dropWhile is_digit s;
          dot = (r1 \<noteq> [] \<and> hd r1 = CHR ''.'');
          fp = (if dot then takeWhile is_digit (tl r1) else []);
          r2 = (if dot then dropWhile is_digit (tl r1) else r1)
      in if ip = [] \<and> fp = [] then None
         else case exponent_part r2 of
                None \<Rightarrow> None
              | Some e \<Rightarrow>
                  let m = of_nat (digits_value 10 (ip @ fp)); p = e - int (length fp)
                  in Some (if 0 \<le> p then m * 10 ^ nat p else m / 10 ^ nat (- p)))"

definition StringToNumber :: "string \<Rightarrow> number" where
  "StringToNumber str =
     (let t = trim str
      in if t = [] then Fin 0
         else if startsWith t ''0x'' \<or> startsWith t ''0X'' then radix_literal 16 (drop 2 t)
         else if startsWith t ''0o'' \<or> startsWith t ''0O'' then radix_literal 8 (drop 2 t)
         else if startsWith t ''0b'' \<or> startsWith t ''0B'' then radix_literal 2 (drop 2 t)
         else
           let neg = (hd t = CHR ''-'');
               u = (if hd t = CHR ''-'' \<or> hd t = CHR ''+'' then tl t else t)
           in if u = ''Infinity'' then (if neg then NegInfinity else Infinity)
              else case unsigned_decimal u of
                     None \<Rightarrow> NaN
                   | Some v \<Rightarrow> fl (if neg then - v else v))"

section \<open>Exceptions\<close>

datatype exn = TypeError | SyntaxError

text \<open>The completion of a call that may throw.\<close>

datatype 'a completion = Normal 'a | Throw exn

section \<open>Regular expressions\<close>

text \<open>
  A compiled global regular expression is used in one way only: \<open>subject.match(re)\<close>
  is counted. So it is kept as the function that gives, for a subject, the number of
  its matches there.

  The regular expressions of the platform come in two layers. The patterns built from
  literal characters, the dot and the quantifiers \<open>*\<close>, \<open>+\<close>, \<open>?\<close> (greedy, or lazy
  with a further \<open>?\<close>) are parsed and matched here: scanning from the left, a
  quantifier with nothing before it to repeat is the \<open>SyntaxError\<close> of the constructor.
  Every other pattern (one with \<open>^\<close>, \<open>$\<close>, a backslash, a bracket, a brace, a
  parenthesis or a bar before any such error) is left to the engine of the platform,
  which is a parameter: \<open>engine pattern\<close> is \<open>None\<close> when the constructor throws its
  \<open>SyntaxError\<close> and otherwise the compiled expression. Every property below holds
  for every engine.
\<close>

type_synonym matcher = "string \<Rightarrow> nat"

type_synonym engine = "string \<Rightarrow> matcher option"

datatype 'a parsed = Parsed 'a | Invalid | Outside

datatype atom = Lit char | AnyChar

datatype quantifier = Once | Star bool | Plus bool | Opt bool

type_synonym regex = "(atom \<times> quantifier) list"

definition is_quantifier_char :: "char \<Rightarrow> bool" where
  "is_quantifier_char c = (c = CHR ''*'' \<or> c = CHR ''+'' \<or> c = CHR ''?'')"

definition is_other_syntax_char :: "char \<Rightarrow> bool" where
  "is_other_syntax_char c =
     (c \<in> {CHR ''^'', CHR ''$'', CHR 0x5C, CHR ''('', CHR '')'', CHR ''['', CHR '']'', CHR ''{'', CHR ''}'', CHR ''|''})"

definition parse_quantifier :: "string \<Rightarrow> quantifier \<times> string" where
  "parse_quantifier s =
     (case s of
        [] \<Rightarrow> (Once, [])
      | q # r \<Rightarrow>
          if is_quantifier_char q then
            (let greedy = (r = [] \<or> hd r \<noteq> CHR ''?'');
                 r' = (if greedy then r else tl r)
             in ((if q = CHR ''*'' then Star greedy else if q = CHR ''+'' then Plus greedy else Opt greedy), r'))
          else (Once, s))"

lemma length_parse_quantifier [termination_simp]:
  "length (snd (parse_quantifier s)) \<le> length s"
  by (auto simp: parse_quantifier_def Let_def split: list.splits)

fun parse_pattern :: "string \<Rightarrow> regex parsed" where
  "parse_pattern [] = Parsed []"
| "parse_pattern (c # s) =
     (if is_quantifier_char c then Invalid
      else if is_other_syntax_char c then Outside
      else
        case parse_pattern (snd (parse_quantifier s)) of
          Parsed ts \<Rightarrow> Parsed (((if c = CHR ''.'' then AnyChar else Lit c), fst (parse_quantifier s)) # ts)
        | Invalid \<Rightarrow> Invalid
        | Outside \<Rightarrow> Outside)"

text \<open>Matching. \<open>match_ends ts s\<close> lists the lengths of the matches of the terms \<open>ts\<close>
  at the start of \<open>s\<close> in the order in which backtracking finds them: a greedy
  quantifier tries the most repetitions first, a lazy one the fewest. The dot matches
  every character but a line terminator.\<close>

definition atom_matches :: "atom \<Rightarrow> char \<Rightarrow> bool" where
  "atom_matches a c = (case a of Lit d \<Rightarrow> c = d | AnyChar \<Rightarrow> c \<noteq> CHR 0x0A \<and> c \<noteq> CHR 0x0D)"

definition repetitions :: "quantifier \<Rightarrow> nat \<Rightarrow> nat list" where
  "repetitions q n =
     (case q of
        Once \<Rightarrow> (if 1 \<le> n then [1] else [])
      | Star greedy \<Rightarrow> (if greedy then rev [0..<n + 1] else [0..<n + 1])
      | Plus greedy \<Rightarrow> (if greedy then rev [1..<n + 1] else [1..<n + 1])
      | Opt greedy \<Rightarrow> (if greedy then rev [0..<min n 1 + 1] else [0..<min n 1 + 1]))"

fun match_ends :: "regex \<Rightarrow> string \<Rightarrow> nat list" where
  "match_ends [] s = [0]"
| "match_ends ((a, q) # ts) s =
     concat (map (\<lambda>k. map (\<lambda>e. k + e) (match_ends ts (drop k s)))
                 (repetitions q (length (takeWhile (atom_matches a) s))))"

text \<open>\<open>subject.match(re)\<close> with the global flag, counted: the search starts again
  where the last match ended, one code unit further after an empty match, and stops
  when no match is left. \<open>skip\<close> is the number of code units still covered by the last
  match. \<open>(subject.match(re) || []).length\<close> is this count, zero when \<open>match\<close> is
  \<open>null\<close>.\<close>

fun count_matches :: "regex \<Rightarrow> nat \<Rightarrow> string \<Rightarrow> nat" where
  "count_matches ts skip [] = (if skip = 0 \<and> match_ends ts [] \<noteq> [] then 1 else 0)"
| "count_matches ts skip (c # s) =
     (if 0 < skip then count_matches ts (skip - 1) s
      else case match_ends ts (c # s) of
             [] \<Rightarrow> count_matches ts 0 s
           | len # _ \<Rightarrow> 1 + count_matches ts (len - 1) s)"

definition match_count :: "regex \<Rightarrow> string \<Rightarrow> nat" where
  "match_count re subject = count_matches re 0 subject"

text \<open>\<open>new RegExp(pattern, 'g')\<close>: the compiled expression, or the \<open>SyntaxError\<close>.\<close>

definition new_RegExp_g :: "engine \<Rightarrow> string \<Rightarrow> matcher completion" where
  "new_RegExp_g engine pattern =
     (case parse_pattern pattern of
        Parsed ts \<Rightarrow> Normal (match_count ts)
      | Invalid \<Rightarrow> Throw SyntaxError
      | Outside \<Rightarrow> (case engine pattern of None \<Rightarrow> Throw SyntaxError | Some re \<Rightarrow> Normal re))"

section \<open>Check 4: keyword density\<close>

text \<open>
  The check takes the engine of the platform as its first argument.
  \<open>wordCount\<close> and the number of matches are counts (the caller passes the length of
  an array), exact as numbers. \<open>density\<close> is the string \<open>toFixed(2)\<close> returns; each
  comparison with a number converts it back with \<open>StringToNumber\<close>. The constructor
  of the regular expression is called before anything is appended, so a throw leaves
  the results list as it was.
\<close>

definition checkKeywordDensity ::
  "engine \<Rightarrow> string \<Rightarrow> string \<Rightarrow> nat \<Rightarrow> recommendation list \<Rightarrow> recommendation list completion" where
  "checkKeywordDensity engine textContent keyword wordCount rl =
     (if keyword = [] then
        Normal (addRecommendation (white_circle @ '' <strong>Focus Keyword:</strong> You have not set a focus keyword.'') Info rl)
      else
        case new_RegExp_g engine keyword of
          Throw e \<Rightarrow> Throw e
        | Normal re \<Rightarrow>
            let keywordCount = re (toLowerCase textContent);
                density = toFixed 2 (js_mul (js_div (Fin (of_nat keywordCount)) (Fin (of_nat wordCount))) (Fin 100))
            in
              if js_gt (StringToNumber density) (Fin (5 / 2)) then
                Normal (addRecommendation (red_circle @ '' <strong>Keyword Density:</strong> '' @ density @ ''%. This is too high (keyword stuffing). Try to reduce it.'') Bad rl)
              else if js_lt (StringToNumber density) (Fin (1 / 2)) then
                Normal (addRecommendation (white_circle @ '' <strong>Keyword Density:</strong> '' @ density @ ''%. This is low. Try to include the keyword a few more times naturally.'') Info rl)
              else
                Normal (addRecommendation (green_circle @ '' <strong>Keyword Density:</strong> '' @ density @ ''%. This is a good density.'') Good rl))"

section \<open>The audit payload\<close>

text \<open>
  The payload is what \<open>response.json()\<close> returns: any JSON value. \<open>Undefined\<close> is
  what reading a missing property gives. An object is the list of its properties, the
  first binding of a key being the property.
\<close>

datatype jsval =
    Undefined
  | Null
  | Bool bool
  | Num number
  | Str string
  | Arr "jsval list"
  | Obj "(string \<times> jsval) list"

text \<open>\<open>ToBoolean\<close>: what \<open>if (v)\<close> and \<open>v && ...\<close> test.\<close>

definition ToBoolean :: "jsval \<Rightarrow> bool" where
  "ToBoolean v =
     (case v of
        Undefined \<Rightarrow> False
      | Null \<Rightarrow> False
      | Bool b \<Rightarrow> b
      | Num n \<Rightarrow> n \<noteq> NaN \<and> n \<noteq> Fin 0
      | Str s \<Rightarrow> s \<noteq> []
      | Arr xs \<Rightarrow> True
      | Obj kvs \<Rightarrow> True)"

text \<open>\<open>ToNumber\<close>, as arithmetic and comparison with a number apply it. An object
  or an array is first made a primitive value, by its \<open>valueOf\<close> and, since that
  gives no primitive, by its \<open>toString\<close>. An object of the payload inherits both
  unless it has a key of that name, whose value is no function and is passed over: so
  the conversion throws a \<open>TypeError\<close> for an object with a key \<open>toString\<close> and
  gives \<open>[object Object]\<close> for any other. The \<open>toString\<close> of an array joins the
  strings of its elements, the empty string for \<open>null\<close>, and so it throws when the
  string of an element does: of an object with a key \<open>toString\<close>, or of an array
  holding one.\<close>

fun ToPrimitive_throws :: "jsval \<Rightarrow> bool" where
  "ToPrimitive_throws (Obj kvs) = (map_of kvs ''toString'' \<noteq> None)"
| "ToPrimitive_throws (Arr xs) = list_ex ToPrimitive_throws xs"
| "ToPrimitive_throws Undefined = False"
| "ToPrimitive_throws Null = False"
| "ToPrimitive_throws (Bool b) = False"
| "ToPrimitive_throws (Num n) = False"
| "ToPrimitive_throws (Str s) = False"

text \<open>The number of a value whose conversion does not throw. The string of the empty
  array and of \<open>[null]\<close> is empty, that of a one-element array is the string of the
  element (which for a number reads back as the same number), and a string with a
  comma is not a number; nor is \<open>[object Object]\<close>.\<close>

fun ToNumber_value :: "jsval \<Rightarrow> number" where
  "ToNumber_value Undefined = NaN"
| "ToNumber_value Null = Fin 0"
| "ToNumber_value (Bool b) = (if b then Fin 1 else Fin 0)"
| "ToNumber_value (Num n) = n"
| "ToNumber_value (Str s) = StringToNumber s"
| "ToNumber_value (Arr []) = Fin 0"
| "ToNumber_value (Arr [Undefined]) = Fin 0"
| "ToNumber_value (Arr [Null]) = Fin 0"
| "ToNumber_value (Arr [Bool b]) = NaN"
| "ToNumber_value (Arr [Num n]) = n"
| "ToNumber_value (Arr [Str s]) = StringToNumber s"
| "ToNumber_value (Arr [Arr xs]) = ToNumber_value (Arr xs)"
| "ToNumber_value (Arr [Obj kvs]) = NaN"
| "ToNumber_value (Arr (x # y # zs)) = NaN"
| "ToNumber_value (Obj kvs) = NaN"

definition ToNumber :: "jsval \<Rightarrow> exn + number" where
  "ToNumber v = (if ToPrimitive_throws v then Inl TypeError else Inr (ToNumber_value v))"

text \<open>Reading the property \<open>k\<close> of \<open>v\<close>: a \<open>TypeError\<close> on \<open>undefined\<close> and
  \<open>null\<close>. Arrays and strings have their indices and \<open>length\<close>; none of the names
  the program reads is a property that objects, arrays, strings, numbers or booleans
  inherit.\<close>

definition array_index :: "string \<Rightarrow> nat option" where
  "array_index k =
     (if k \<noteq> [] \<and> list_all is_digit k \<and> show_nat (digits_value 10 k) = k
      then Some (digits_value 10 k) else None)"

definition Get :: "jsval \<Rightarrow> string \<Rightarrow> exn + jsval" where
  "Get v k =
     (case v of
        Undefined \<Rightarrow> Inl TypeError
      | Null \<Rightarrow> Inl TypeError
      | Bool b \<Rightarrow> Inr Undefined
      | Num n \<Rightarrow> Inr Undefined
      | Str s \<Rightarrow>
          if k = ''length'' then Inr (Num (Fin (of_nat (length s))))
          else (case array_index k of
                  Some i \<Rightarrow> Inr (if i < length s then Str [s ! i] else Undefined)
                | None \<Rightarrow> Inr Undefined)
      | Arr xs \<Rightarrow>
          if k = ''length'' then Inr (Num (Fin (of_nat (length xs))))
          else (case array_index k of
                  Some i \<Rightarrow> Inr (if i < length xs then xs ! i else Undefined)
                | None \<Rightarrow> Inr Undefined)
      | Obj kvs \<Rightarrow> Inr (case map_of kvs k of Some x \<Rightarrow> x | None \<Rightarrow> Undefined))"

text \<open>\<open>v.toFixed(f)\<close>: only a number has the method; on \<open>undefined\<close> and \<open>null\<close>
  the property read throws, on any other value the call of \<open>undefined\<close> does.\<close>

definition call_toFixed :: "jsval \<Rightarrow> nat \<Rightarrow> exn + string" where
  "call_toFixed v f = (case v of Num n \<Rightarrow> Inr (toFixed f n) | _ \<Rightarrow> Inl TypeError)"

section \<open>The results list of the URL analysis\<close>

datatype item =
    Recommendation string severity
  | ScoreCard string string string

text \<open>A statement of \<open>processApiData\<close> takes \<open>urlResultsList\<close> and returns it with
  the exception it threw, if any: what was appended before a throw stays appended.\<close>

type_synonym stmt = "item list \<Rightarrow> item list \<times> exn option"

definition addUrlRecommendation :: "string \<Rightarrow> severity \<Rightarrow> stmt" where
  "addUrlRecommendation txt ty urlResultsList = (urlResultsList @ [Recommendation txt ty], None)"

text \<open>\<open>addScoreCard(title, score)\<close>: the card holds the title, the colour and
  \<open>score.toFixed(0)\<close>; \<open>score\<close> is a number at every call.\<close>

definition addScoreCard :: "string \<Rightarrow> number \<Rightarrow> stmt" where
  "addScoreCard title score urlResultsList =
     (let scoreColor = ''#f44336'';
          scoreColor = (if js_ge score (Fin 50) then ''#ffa726'' else scoreColor);
          scoreColor = (if js_ge score (Fin 90) then ''#4CAF50'' else scoreColor)
      in (urlResultsList @ [ScoreCard title scoreColor (toFixed 0 score)], None))"

definition nothing :: stmt where
  "nothing urlResultsList = (urlResultsList, None)"

definition seq :: "stmt \<Rightarrow> stmt \<Rightarrow> stmt" where
  "seq s1 s2 urlResultsList =
     (case s1 urlResultsList of
        (l, None) \<Rightarrow> s2 l
      | (l, Some e) \<Rightarrow> (l, Some e))"

definition with_value :: "exn + 'a \<Rightarrow> ('a \<Rightarrow> stmt) \<Rightarrow> stmt" where
  "with_value r k urlResultsList = (case r of Inl e \<Rightarrow> (urlResultsList, Some e) | Inr v \<Rightarrow> k v urlResultsList)"

definition bindE :: "exn + 'a \<Rightarrow> ('a \<Rightarrow> exn + 'b) \<Rightarrow> exn + 'b" where
  "bindE r k = (case r of Inl e \<Rightarrow> Inl e | Inr v \<Rightarrow> k v)"

section \<open>The projection of the audit payload\<close>

text \<open>\<open>getCategory(id)\<close> reads \<open>lighthouseResult.categories[id]\<close>, at each call.\<close>

definition getCategory :: "jsval \<Rightarrow> string \<Rightarrow> exn + jsval" where
  "getCategory lighthouseResult ident =
     bindE (Get lighthouseResult ''categories'') (\<lambda>categories. Get categories ident)"

text \<open>The chain of \<open>&&\<close> that reads the first item of the metrics audit: each \<open>&&\<close>
  gives its left operand when that is falsy and its right operand otherwise.\<close>

definition metricsItem :: "jsval \<Rightarrow> exn + jsval" where
  "metricsItem audits =
     bindE (Get audits ''metrics'') (\<lambda>m.
       if \<not> ToBoolean m then Inr m
       else bindE (Get m ''details'') (\<lambda>d.
         if \<not> ToBoolean d then Inr d
         else bindE (Get d ''items'') (\<lambda>i.
           if \<not> ToBoolean i then Inr i
           else Get i ''0'')))"

text \<open>The three messages on the Core Web Vitals, from a truthy \<open>metrics\<close>. The
  first comparison of a value converts it to a number and throws when the conversion
  does; every later conversion of the same value gives the same number.\<close>

definition lcpMessage :: "jsval \<Rightarrow> stmt" where
  "lcpMessage metrics =
     with_value (Get metrics ''largestContentfulPaint'') (\<lambda>lcp.
       with_value (ToNumber lcp) (\<lambda>n.
         let lcpRating = (if js_le n (Fin 2500) then ''Good''
                          else if js_le n (Fin 4000) then ''Needs Improvement'' else ''Poor'');
             lcpType = (if js_le n (Fin 2500) then Good
                        else if js_le n (Fin 4000) then Info else Bad)
         in addUrlRecommendation
              (white_circle @ '' **LCP:** '' @ lcpRating @ '' ('' @ toFixed 2 (js_div n (Fin 1000)) @ ''s). Aim for < 2.5s.'')
              lcpType))"

definition clsMessage :: "jsval \<Rightarrow> stmt" where
  "clsMessage metrics =
     with_value (Get metrics ''cumulativeLayoutShift'') (\<lambda>cls.
       with_value (ToNumber cls) (\<lambda>n.
         let clsRating = (if js_le n (fl (1 / 10)) then ''Good''
                          else if js_le n (Fin (1 / 4)) then ''Needs Improvement'' else ''Poor'');
             clsType = (if js_le n (fl (1 / 10)) then Good
                        else if js_le n (Fin (1 / 4)) then Info else Bad)
         in with_value (call_toFixed cls 3) (\<lambda>shown.
              addUrlRecommendation
                (white_circle @ '' **CLS:** '' @ clsRating @ '' ('' @ shown @ ''). Aim for < 0.1.'')
                clsType)))"

definition tbtMessage :: "jsval \<Rightarrow> stmt" where
  "tbtMessage metrics =
     with_value (Get metrics ''totalBlockingTime'') (\<lambda>tbt.
       with_value (ToNumber tbt) (\<lambda>n.
         let tbtRating = (if js_le n (Fin 200) then ''Good (Low Blocking Time)''
                          else ''Poor (High Blocking Time)'');
             tbtType = (if js_le n (Fin 200) then Good else Bad)
         in with_value (call_toFixed tbt 0) (\<lambda>shown.
              addUrlRecommendation
                (white_circle @ '' **TBT (Proxy for INP):** '' @ tbtRating @ '' ('' @ shown @ ''ms). Aim for < 200ms.'')
                tbtType)))"

text \<open>Part 1 of \<open>processApiData\<close>: Core Web Vitals and performance. The product
  \<open>performanceCategory.score * 100\<close> converts the score before anything is
  appended.\<close>

definition performancePart :: "jsval \<Rightarrow> jsval \<Rightarrow> stmt" where
  "performancePart lighthouseResult audits =
     with_value (getCategory lighthouseResult ''performance'') (\<lambda>performanceCategory.
       if ToBoolean performanceCategory then
         with_value (Get performanceCategory ''score'') (\<lambda>score.
           with_value (ToNumber score) (\<lambda>n.
             let performanceScore = js_mul n (Fin 100)
             in seq (addScoreCard ''Performance Score'' performanceScore)
               (seq (addUrlRecommendation (green_circle @ '' **Core Web Vitals Check**'') Good)
                 (with_value (metricsItem audits) (\<lambda>metrics.
                    if ToBoolean metrics then
                      seq (lcpMessage metrics) (seq (clsMessage metrics) (tbtMessage metrics))
                    else nothing)))))
       else
         addUrlRecommendation (red_circle @ '' **Performance Data Missing:** Could not retrieve Core Web Vitals data for this URL.'') Bad)"

text \<open>Part 2: the accessibility score.\<close>

definition accessibilityPart :: "jsval \<Rightarrow> stmt" where
  "accessibilityPart lighthouseResult =
     with_value (getCategory lighthouseResult ''accessibility'') (\<lambda>accessibilityCategory.
       if ToBoolean accessibilityCategory then
         with_value (Get accessibilityCategory ''score'') (\<lambda>score.
           with_value (ToNumber score) (\<lambda>n.
             let accessibilityScore = js_mul n (Fin 100)
             in seq (addScoreCard ''Accessibility Score'' accessibilityScore)
                  (if js_lt accessibilityScore (Fin 90) then
                     addUrlRecommendation (red_circle @ '' **Accessibility:** Low score! Check for issues like color contrast or form labels.'') Bad
                   else
                     addUrlRecommendation (green_circle @ '' **Accessibility:** Excellent score!'') Good)))
       else nothing)"

text \<open>Part 3: the SEO score and the four technical checks. The first test of a check
  is \<open>audits[id] && failing(audits[id].score)\<close>: false when the audit is falsy, and
  otherwise what the test of the score gives, which for \<open>score < 1\<close> converts the
  score and may throw. When the first test is false the second, \<open>audits[id]\<close>,
  decides between the good recommendation and nothing.\<close>

definition auditCheck :: "jsval \<Rightarrow> string \<Rightarrow> (jsval \<Rightarrow> exn + bool) \<Rightarrow> string \<Rightarrow> string \<Rightarrow> stmt" where
  "auditCheck audits ident failing badText goodText =
     with_value (Get audits ident) (\<lambda>audit.
       with_value (if ToBoolean audit then bindE (Get audit ''score'') failing else Inr False) (\<lambda>fails.
         if fails then addUrlRecommendation badText Bad
         else if ToBoolean audit then addUrlRecommendation goodText Good
         else nothing))"

text \<open>\<open>score === 0\<close> converts nothing; \<open>score < 1\<close> converts the score.\<close>

definition strictly_zero :: "jsval \<Rightarrow> exn + bool" where
  "strictly_zero score = Inr (score = Num (Fin 0))"

definition less_than_one :: "jsval \<Rightarrow> exn + bool" where
  "less_than_one score = bindE (ToNumber score) (\<lambda>n. Inr (js_lt n (Fin 1)))"

definition seoPart :: "jsval \<Rightarrow> jsval \<Rightarrow> stmt" where
  \<open>seoPart lighthouseResult audits =
     with_value (getCategory lighthouseResult ''seo'') (\<lambda>seoCategory.
       if ToBoolean seoCategory then
         with_value (Get seoCategory ''score'') (\<lambda>score.
           with_value (ToNumber score) (\<lambda>n.
             let seoScore = js_mul n (Fin 100)
             in seq (addScoreCard ''Google SEO Score'' seoScore)
               (seq (auditCheck audits ''meta-description'' strictly_zero
                       (red_circle @ '' **Meta Description:** Page is missing one, or it is too short.'')
                       (green_circle @ '' **Meta Description:** Page has a suitable meta description.''))
               (seq (auditCheck audits ''image-alt'' less_than_one
                       (red_circle @ '' **Image SEO:** Some images are missing an `alt` tag.'')
                       (green_circle @ '' **Image SEO:** All images have alt tags.''))
               (seq (auditCheck audits ''is-crawlable'' less_than_one
                       (red_circle @ '' **Indexing:** The page may be blocked from indexing. **Fix this immediately.**'')
                       (green_circle @ '' **Indexing:** The page is not blocked from indexing.''))
                    (auditCheck audits ''viewport'' strictly_zero
                       (red_circle @ '' **Mobile Viewport:** Missing `<meta name="viewport">` tag. **The page is not mobile-friendly.**'')
                       (green_circle @ '' **Mobile Viewport:** Page uses a mobile-friendly viewport.'')))))))
       else
         addUrlRecommendation (red_circle @ '' **SEO Audit Missing:** Could not retrieve full SEO audit for this URL.'') Bad)\<close>

text \<open>\<open>processApiData(data)\<close> empties \<open>urlResultsList\<close>, reads \<open>lighthouseResult\<close>
  and its \<open>audits\<close>, and runs the three parts.\<close>

definition processApiData :: "jsval \<Rightarrow> item list \<times> exn option" where
  "processApiData data =
     with_value (Get data ''lighthouseResult'') (\<lambda>lighthouseResult.
       with_value (Get lighthouseResult ''audits'') (\<lambda>audits.
         seq (performancePart lighthouseResult audits)
           (seq (accessibilityPart lighthouseResult)
                (seoPart lighthouseResult audits))))
       []"

section \<open>The claims' words for the audits\<close>

text \<open>The score of a category or an audit; the property of an object, \<open>undefined\<close>
  when the key is missing; and what an SEO audit adds to the list: nothing when its key
  is missing from \<open>audits\<close> (or bound to a falsy value, which no JSON object is), and
  otherwise exactly one recommendation, bad when the score fails the test of the audit
  and good when it does not.\<close>

definition score_of :: "jsval \<Rightarrow> jsval" where
  "score_of v = (case Get v ''score'' of Inr s \<Rightarrow> s | Inl e \<Rightarrow> Undefined)"





definition lookup :: "(string \<times> jsval) list \<Rightarrow> string \<Rightarrow> jsval" where
  "lookup kvs k = (case map_of kvs k of Some v \<Rightarrow> v | None \<Rightarrow> Undefined)"

section \<open>Example payloads\<close>

text \<open>The example of the specification: LCP 2000 ms, CLS 0.15 (the number that the
  literal \<open>0.15\<close> denotes) and TBT 250 ms, with a performance score of 0.5, an SEO
  score of 1, an \<open>is-crawlable\<close> audit of score 0 and a \<open>viewport\<close> audit of score 1;
  and a payload whose metrics item has no \<open>cumulativeLayoutShift\<close>.\<close>

definition example_cls :: number where
  "example_cls = fl (15 / 100)"

definition example_metrics :: "(string \<times> jsval) list" where
  "example_metrics =
     [(''largestContentfulPaint'', Num (Fin 2000)),
      (''cumulativeLayoutShift'', Num example_cls),
      (''totalBlockingTime'', Num (Fin 250))]"

definition example_audits :: "(string \<times> jsval) list" where
  "example_audits =
     [(''metrics'', Obj [(''details'', Obj [(''items'', Arr [Obj example_metrics])])]),
      (''is-crawlable'', Obj [(''score'', Num (Fin 0))]),
      (''viewport'', Obj [(''score'', Num (Fin 1))])]"

definition example_result :: jsval where
  "example_result =
     Obj [(''categories'', Obj [(''performance'', Obj [(''score'', Num (Fin (1 / 2)))]),
                               (''seo'', Obj [(''score'', Num (Fin 1))])]),
          (''audits'', Obj example_audits)]"

definition example_payload :: jsval where
  "example_payload = Obj [(''lighthouseResult'', example_result)]"

definition payload_without_cls :: jsval where
  "payload_without_cls =
     Obj [(''lighthouseResult'',
       Obj [(''categories'', Obj [(''performance'', Obj [(''score'', Num (Fin (1 / 2)))])]),
            (''audits'', Obj [(''metrics'', Obj [(''details'', Obj [(''items'',
                Arr [Obj [(''largestContentfulPaint'', Num (Fin 2000))]])])])])])]"




text \<open>The regular expression of the keyword \<open>seo\<close>.\<close>

definition seo_regex :: regex where
  "seo_regex = [(Lit CHR ''s'', Once), (Lit CHR ''e'', Once), (Lit CHR ''o'', Once)]"

text \<open>An engine that compiles no pattern: the patterns of the examples are parsed
  and matched here and never reach it.\<close>

definition no_engine :: engine where
  "no_engine pattern = None"
section \<open>The claims' words for the keyword density\<close>

text \<open>The density as the program computes it; a number rounded to two decimals, as the
  count of its hundredths (a tie goes up); and the decimal notation of a count of
  hundredths, with two digits after the point.\<close>

definition hundredths :: "number \<Rightarrow> nat" where
  "hundredths x = (case x of Fin r \<Rightarrow> nat \<lfloor>r * 100 + 1 / 2\<rfloor> | _ \<Rightarrow> 0)"

definition density_of :: "nat \<Rightarrow> nat \<Rightarrow> number" where
  "density_of keywordCount wordCount =
     js_mul (js_div (Fin (of_nat keywordCount)) (Fin (of_nat wordCount))) (Fin 100)"

definition two_decimals :: "nat \<Rightarrow> string" where
  "two_decimals n = show_nat (n div 100) @ ''.'' @ [digit_char (n div 10 mod 10), digit_char (n mod 10)]"

section \<open>Properties of the string helpers\<close>

lemma startsWith_iff: "startsWith s p \<longleftrightarrow> (\<exists>v. s = p @ v)"
  unfolding startsWith_def
  by (metis append_eq_conv_conj append_take_drop_id)

lemma includes_str_iff: "includes_str s k \<longleftrightarrow> (\<exists>u v. s = u @ k @ v)"
proof (induction s)
  case Nil
  show ?case by auto
next
  case (Cons c s)
  show ?case
  proof
    assume "includes_str (c # s) k"
    then consider "startsWith (c # s) k" | "includes_str s k" by auto
    then show "\<exists>u v. c # s = u @ k @ v"
    proof cases
      case 1
      then obtain v where "c # s = k @ v" using startsWith_iff by blast
      then have "c # s = [] @ k @ v" by simp
      then show ?thesis by blast
    next
      case 2
      then obtain u v where "s = u @ k @ v" using Cons.IH by blast
      then have "c # s = (c # u) @ k @ v" by simp
      then show ?thesis by blast
    qed
  next
    assume "\<exists>u v. c # s = u @ k @ v"
    then obtain u v where uv: "c # s = u @ k @ v" by blast
    show "includes_str (c # s) k"
    proof (cases u)
      case Nil
      with uv have "startsWith (c # s) k" using startsWith_iff by auto
      then show ?thesis by simp
    next
      case (Cons d u')
      with uv have "s = u' @ k @ v" by simp
      then have "includes_str s k" using Cons.IH by blast
      then show ?thesis by simp
    qed
  qed
qed

lemma startsWith_Nil [simp]: "startsWith [] p \<longleftrightarrow> p = []"
  by (auto simp: startsWith_def)

lemma startsWith_Cons: "startsWith s (c # p) \<longleftrightarrow> (\<exists>t. s = c # t \<and> startsWith t p)"
  by (cases s) (auto simp: startsWith_def)

lemma trim_Nil [simp]: "trim [] = []"
  by (simp add: trim_def)

section \<open>Properties of the rounding\<close>

text \<open>The binary exponent is the right one, rounding is monotone towards a value that
  is a binary64 number already, and such values are fixed points of \<open>fl\<close>.\<close>

lemma pow2_powi: "pow2 q = 2 powi q"
  by (simp add: pow2_def power_int_def inverse_eq_divide power_one_over)

lemma pow2_pos [simp]: "0 < pow2 q"
  by (simp add: pow2_powi)

lemma pow2_nonneg [simp]: "0 \<le> pow2 q"
  by (simp add: pow2_powi)

lemma pow2_nonzero [simp]: "pow2 q \<noteq> 0"
  by (simp add: pow2_powi)

lemma bitlen_nat_bounds:
  "0 < n \<Longrightarrow> 2 ^ (bitlen_nat n - 1) \<le> n \<and> n < 2 ^ bitlen_nat n"
proof (induction n rule: bitlen_nat.induct)
  case (1 n)
  show ?case
  proof (cases "n div 2 = 0")
    case True
    with 1(2) have "n = 1" by (auto simp: div_eq_0_iff)
    then show ?thesis by (simp add: bitlen_nat.simps)
  next
    case False
    then have pos: "0 < n div 2" by simp
    from 1(2) have n0: "n \<noteq> 0" by simp
    let ?b = "bitlen_nat (n div 2)"
    from 1(1) [OF n0 pos] have lo: "2 ^ (?b - 1) \<le> n div 2" and hi: "n div 2 < 2 ^ ?b"
      by simp_all
    have bpos: "0 < ?b" using pos by (simp add: bitlen_nat.simps [of "n div 2"])
    have bl: "bitlen_nat n = Suc ?b" using n0 by (simp add: bitlen_nat.simps [of n])
    have "2 ^ ?b = 2 * 2 ^ (?b - 1)" using bpos by (cases ?b) simp_all
    also have "\<dots> \<le> 2 * (n div 2)" using lo by simp
    also have "\<dots> \<le> n" by simp
    finally have l: "2 ^ ?b \<le> n" .
    have "n < 2 * (n div 2) + 2" by linarith
    also have "\<dots> \<le> 2 * 2 ^ ?b" using hi by simp
    finally have h: "n < 2 ^ Suc ?b" by simp
    show ?thesis using l h bl by simp
  qed
qed

lemma bitlen_nat_pos: "0 < n \<Longrightarrow> 0 < bitlen_nat n"
  by (simp add: bitlen_nat.simps [of n])

lemma bitlen_rat_bounds:
  assumes "0 < n"
  shows "(2::rat) ^ (bitlen_nat n - 1) \<le> of_nat n" and "(of_nat n :: rat) + 1 \<le> 2 ^ bitlen_nat n"
proof -
  from bitlen_nat_bounds [OF assms]
  have lo: "2 ^ (bitlen_nat n - 1) \<le> n" and hi: "n + 1 \<le> 2 ^ bitlen_nat n" by simp_all
  have "(of_nat (2 ^ (bitlen_nat n - 1)) :: rat) \<le> of_nat n" using lo by (simp only: of_nat_le_iff)
  then show "(2::rat) ^ (bitlen_nat n - 1) \<le> of_nat n" by simp
  have "(of_nat (n + 1) :: rat) \<le> of_nat (2 ^ bitlen_nat n)" using hi by (simp only: of_nat_le_iff)
  then show "(of_nat n :: rat) + 1 \<le> 2 ^ bitlen_nat n" by simp
qed

lemma ilog2_bounds:
  assumes "0 < a"
  shows "2 powi (ilog2 a) \<le> a \<and> a < 2 powi (ilog2 a + 1)"
proof (cases "1 \<le> a")
  case True
  define n where "n = nat \<lfloor>a\<rfloor>"
  define b where "b = bitlen_nat n"
  have fl1: "1 \<le> \<lfloor>a\<rfloor>" using True by linarith
  then have npos: "0 < n" by (simp add: n_def)
  have bpos: "0 < b" unfolding b_def using npos by (rule bitlen_nat_pos)
  have e: "ilog2 a = int b - 1" using True by (simp add: ilog2_def b_def n_def)
  have n_eq: "(of_nat n :: rat) = of_int \<lfloor>a\<rfloor>" using fl1 by (simp add: n_def)
  have n_le: "(of_nat n :: rat) \<le> a" unfolding n_eq by simp
  have a_lt: "a < of_nat n + 1" unfolding n_eq by linarith
  have e1: "int b - 1 = int (b - 1)" using bpos by simp
  have "(2::rat) ^ (b - 1) \<le> a"
    using bitlen_rat_bounds(1) [OF npos] n_le unfolding b_def by (rule order_trans)
  then have lo: "2 powi (ilog2 a) \<le> a" unfolding e e1 by simp
  have "a < 2 ^ b"
    using a_lt bitlen_rat_bounds(2) [OF npos] unfolding b_def by (rule less_le_trans)
  moreover have "ilog2 a + 1 = int b" using e by simp
  ultimately have hi: "a < 2 powi (ilog2 a + 1)" by simp
  show ?thesis using lo hi by simp
next
  case False
  define m where "m = nat (\<lceil>1 / a\<rceil> - 1)"
  define j where "j = bitlen_nat m"
  have inv: "1 < 1 / a" using False assms by simp
  then have c2: "2 \<le> \<lceil>1 / a\<rceil>" by linarith
  then have mpos: "0 < m" unfolding m_def by linarith
  have jpos: "0 < j" unfolding j_def using mpos by (rule bitlen_nat_pos)
  have e: "ilog2 a = - int j" using False by (simp add: ilog2_def j_def m_def)
  have z: "0 \<le> \<lceil>1 / a\<rceil> - 1" using c2 by linarith
  have "(of_nat m :: rat) = of_int (\<lceil>1 / a\<rceil> - 1)"
    unfolding m_def by (rule of_nat_nat [OF z])
  then have m1: "(of_nat m :: rat) = of_int \<lceil>1 / a\<rceil> - 1" by simp
  have "1 / a \<le> of_int \<lceil>1 / a\<rceil>" by simp
  also have "\<dots> = of_nat m + 1" using m1 by simp
  also have "\<dots> \<le> 2 ^ j" using bitlen_rat_bounds(2) [OF mpos] by (simp add: j_def)
  finally have "1 / a \<le> 2 ^ j" .
  then have "1 / 2 ^ j \<le> a" using assms
    by (simp add: field_simps)
  then have lo: "2 powi (ilog2 a) \<le> a" unfolding e
    by (simp add: power_int_minus inverse_eq_divide)
  have "of_int \<lceil>1 / a\<rceil> - 1 < 1 / a" by linarith
  then have "of_nat m < 1 / a" using m1 by simp
  then have "(2::rat) ^ (j - 1) < 1 / a"
    using bitlen_rat_bounds(1) [OF mpos] unfolding j_def by (rule le_less_trans [rotated])
  then have "a < 1 / 2 ^ (j - 1)" using assms
    by (simp add: field_simps)
  moreover have "ilog2 a + 1 = - int (j - 1)" using e jpos by simp
  ultimately have hi: "a < 2 powi (ilog2 a + 1)"
    by (simp add: power_int_minus inverse_eq_divide)
  show ?thesis using lo hi by simp
qed

lemma ilog2_mono:
  assumes "0 < a" and "a \<le> b"
  shows "ilog2 a \<le> ilog2 b"
proof (rule ccontr)
  assume "\<not> ilog2 a \<le> ilog2 b"
  then have "ilog2 b + 1 \<le> ilog2 a" by simp
  then have "(2::rat) powi (ilog2 b + 1) \<le> 2 powi (ilog2 a)"
    by (intro power_int_increasing) simp_all
  moreover have "b < 2 powi (ilog2 b + 1)" using ilog2_bounds [of b] assms by simp
  moreover have "2 powi (ilog2 a) \<le> a" using ilog2_bounds [OF assms(1)] by simp
  ultimately show False using assms(2) by linarith
qed

lemma round_half_even_le: "y \<le> of_int M \<Longrightarrow> round_half_even y \<le> M"
  unfolding round_half_even_def Let_def
  by (auto simp: le_floor_iff) (linarith+)

lemma round_half_even_ge: "of_int M \<le> y \<Longrightarrow> M \<le> round_half_even y"
  unfolding round_half_even_def Let_def
  by (auto simp: le_floor_iff) (linarith+)

lemma significand_le:
  assumes "0 < a"
  shows "round_half_even (a / pow2 (quantum a)) \<le> 2 ^ 53"
proof -
  have q: "ilog2 a + 1 - quantum a \<le> 53" by (simp add: quantum_def)
  have "a / pow2 (quantum a) < 2 powi (ilog2 a + 1) / 2 powi (quantum a)"
    using ilog2_bounds [OF assms] by (simp add: pow2_powi divide_strict_right_mono)
  also have "\<dots> = 2 powi (ilog2 a + 1 - quantum a)"
    by (simp add: power_int_diff)
  also have "\<dots> \<le> 2 powi 53"
    using q by (intro power_int_increasing) simp_all
  finally have "a / pow2 (quantum a) \<le> of_int (2 ^ 53)" by simp
  then show ?thesis by (rule round_half_even_le)
qed

lemma significand_ge:
  assumes "0 < a" and "- 1074 < quantum a"
  shows "2 ^ 52 \<le> round_half_even (a / pow2 (quantum a))"
proof -
  have q: "quantum a = ilog2 a - 52" using assms(2) by (simp add: quantum_def max_def split: if_splits)
  have "(2::rat) powi 52 = 2 powi (ilog2 a - quantum a)" using q by simp
  also have "\<dots> = 2 powi (ilog2 a) / 2 powi (quantum a)"
    by (simp add: power_int_diff)
  also have "\<dots> \<le> a / pow2 (quantum a)"
    using ilog2_bounds [OF assms(1)] by (simp add: pow2_powi divide_right_mono)
  finally have "of_int (2 ^ 52) \<le> a / pow2 (quantum a)" by simp
  then show ?thesis by (rule round_half_even_ge)
qed

lemma quantum_mono: "0 < a \<Longrightarrow> a \<le> b \<Longrightarrow> quantum a \<le> quantum b"
  using ilog2_mono [of a b] by (simp add: quantum_def)

lemma round_to_quantum_nonneg: "0 \<le> a \<Longrightarrow> 0 \<le> round_to_quantum a"
proof -
  assume "0 \<le> a"
  then have "of_int 0 \<le> a / pow2 (quantum a)" by simp
  then have "0 \<le> round_half_even (a / pow2 (quantum a))" by (rule round_half_even_ge)
  then show ?thesis by (simp add: round_to_quantum_def)
qed

lemma round_to_quantum_le_pow:
  assumes "0 < a"
  shows "round_to_quantum a \<le> 2 powi (53 + quantum a)"
proof -
  have "of_int (round_half_even (a / pow2 (quantum a))) \<le> (of_int (2 ^ 53) :: rat)"
    using significand_le [OF assms] by (simp only: of_int_le_iff)
  then have "round_to_quantum a \<le> of_int (2 ^ 53) * pow2 (quantum a)"
    unfolding round_to_quantum_def by (intro mult_right_mono) simp_all
  also have "\<dots> = 2 powi 53 * 2 powi (quantum a)" by (simp add: pow2_powi)
  also have "\<dots> = 2 powi (53 + quantum a)" by (simp add: power_int_add)
  finally show ?thesis .
qed

lemma round_to_quantum_ge_pow:
  assumes "0 < a" and "- 1074 < quantum a"
  shows "2 powi (52 + quantum a) \<le> round_to_quantum a"
proof -
  have "(of_int (2 ^ 52) :: rat) \<le> of_int (round_half_even (a / pow2 (quantum a)))"
    using significand_ge [OF assms] by (simp only: of_int_le_iff)
  then have "of_int (2 ^ 52) * pow2 (quantum a) \<le> round_to_quantum a"
    unfolding round_to_quantum_def by (intro mult_right_mono) simp_all
  moreover have "of_int (2 ^ 52) * pow2 (quantum a) = 2 powi 52 * 2 powi (quantum a)" by (simp add: pow2_powi)
  moreover have "(2::rat) powi 52 * 2 powi (quantum a) = 2 powi (52 + quantum a)" by (simp add: power_int_add)
  ultimately show ?thesis by simp
qed

lemma round_to_quantum_le:
  assumes a: "0 < a" and ab: "a \<le> B" and B: "round_to_quantum B = B"
  shows "round_to_quantum a \<le> B"
proof -
  have Bpos: "0 < B" using a ab by simp
  have qq: "quantum a \<le> quantum B" using a ab by (rule quantum_mono)
  show ?thesis
  proof (cases "quantum a = quantum B")
    case True
    define M where "M = round_half_even (B / pow2 (quantum B))"
    have BM: "B = of_int M * pow2 (quantum B)" using B by (simp add: round_to_quantum_def M_def)
    have "B / pow2 (quantum B) = of_int M"
      by (subst BM) simp
    moreover have "a / pow2 (quantum a) \<le> B / pow2 (quantum B)"
      using ab True by (simp add: divide_right_mono)
    ultimately have "a / pow2 (quantum a) \<le> of_int M" by simp
    then have "round_half_even (a / pow2 (quantum a)) \<le> M" by (rule round_half_even_le)
    then have "(of_int (round_half_even (a / pow2 (quantum a))) :: rat) \<le> of_int M"
      by (simp only: of_int_le_iff)
    then have "round_to_quantum a \<le> of_int M * pow2 (quantum a)"
      unfolding round_to_quantum_def by (intro mult_right_mono) simp_all
    then show ?thesis using BM True by simp
  next
    case False
    with qq have lt: "quantum a + 1 \<le> quantum B" by simp
    then have "- 1074 < quantum B" by (simp add: quantum_def)
    then have "2 powi (52 + quantum B) \<le> round_to_quantum B"
      using Bpos by (intro round_to_quantum_ge_pow)
    moreover have "(2::rat) powi (53 + quantum a) \<le> 2 powi (52 + quantum B)"
      using lt by (intro power_int_increasing) simp_all
    ultimately show ?thesis using round_to_quantum_le_pow [OF a] B by linarith
  qed
qed

lemma round_to_quantum_ge:
  assumes Bpos: "0 < B" and ab: "B \<le> a" and B: "round_to_quantum B = B"
  shows "B \<le> round_to_quantum a"
proof -
  have a: "0 < a" using Bpos ab by simp
  have qq: "quantum B \<le> quantum a" using Bpos ab by (rule quantum_mono)
  show ?thesis
  proof (cases "quantum a = quantum B")
    case True
    define M where "M = round_half_even (B / pow2 (quantum B))"
    have BM: "B = of_int M * pow2 (quantum B)" using B by (simp add: round_to_quantum_def M_def)
    have "B / pow2 (quantum B) = of_int M"
      by (subst BM) simp
    moreover have "B / pow2 (quantum B) \<le> a / pow2 (quantum a)"
      using ab True by (simp add: divide_right_mono)
    ultimately have "of_int M \<le> a / pow2 (quantum a)" by simp
    then have "M \<le> round_half_even (a / pow2 (quantum a))" by (rule round_half_even_ge)
    then have "(of_int M :: rat) \<le> of_int (round_half_even (a / pow2 (quantum a)))"
      by (simp only: of_int_le_iff)
    then have "of_int M * pow2 (quantum a) \<le> round_to_quantum a"
      unfolding round_to_quantum_def by (intro mult_right_mono) simp_all
    then show ?thesis using BM True by simp
  next
    case False
    with qq have lt: "quantum B + 1 \<le> quantum a" by simp
    then have "- 1074 < quantum a" by (simp add: quantum_def)
    then have "2 powi (52 + quantum a) \<le> round_to_quantum a"
      using a by (intro round_to_quantum_ge_pow)
    moreover have "(2::rat) powi (53 + quantum B) \<le> 2 powi (52 + quantum a)"
      using lt by (intro power_int_increasing) simp_all
    ultimately show ?thesis using round_to_quantum_le_pow [OF Bpos] B by linarith
  qed
qed

lemma fl_Fin_pos:
  assumes "0 < B" and "fl B = Fin B"
  shows "round_to_quantum B = B" and "ilog2 B < 1024"
proof -
  from assms have "round_to_quantum B = B \<and> \<not> 1024 \<le> ilog2 (round_to_quantum B)"
    by (auto simp: fl_def Let_def split: if_splits)
  then show "round_to_quantum B = B" and "ilog2 B < 1024" by (simp, metis not_le)
qed

lemma fl_le:
  assumes a: "0 \<le> a" and ab: "a \<le> B" and B: "fl B = Fin B"
  shows "\<exists>r. fl a = Fin r \<and> 0 \<le> r \<and> r \<le> B"
proof (cases "a = 0")
  case True
  then show ?thesis using a ab by (simp add: fl_def)
next
  case False
  then have apos: "0 < a" using a by simp
  then have Bpos: "0 < B" using ab by simp
  note Bf = fl_Fin_pos [OF Bpos B]
  define r where "r = round_to_quantum a"
  have r0: "0 \<le> r" unfolding r_def using a by (rule round_to_quantum_nonneg)
  have rB: "r \<le> B" unfolding r_def using apos ab Bf(1) by (rule round_to_quantum_le)
  have "ilog2 r < 1024"
  proof (cases "r = 0")
    case True
    then show ?thesis by (simp add: ilog2_def bitlen_nat.simps)
  next
    case False
    then have "0 < r" using r0 by simp
    then have "ilog2 r \<le> ilog2 B" using rB by (rule ilog2_mono)
    then show ?thesis using Bf(2) by simp
  qed
  then have "fl a = Fin r" using apos by (simp add: fl_def Let_def r_def)
  then show ?thesis using r0 rB by simp
qed

lemma fl_ge:
  assumes Bpos: "0 < B" and ab: "B \<le> a" and B: "fl B = Fin B"
  shows "fl a = Infinity \<or> (\<exists>r. fl a = Fin r \<and> B \<le> r)"
proof -
  note Bf = fl_Fin_pos [OF Bpos B]
  have apos: "0 < a" using Bpos ab by simp
  have "B \<le> round_to_quantum a" using Bpos ab Bf(1) by (rule round_to_quantum_ge)
  then show ?thesis using apos by (simp add: fl_def Let_def)
qed

lemma ilog2_unique:
  assumes "2 powi e \<le> a" and "a < 2 powi (e + 1)"
  shows "ilog2 a = e"
proof -
  have apos: "0 < a" using assms(1) by (rule less_le_trans [rotated]) simp
  note b = ilog2_bounds [OF apos]
  have lt1: "(2::rat) powi e < 2 powi (ilog2 a + 1)" using assms(1) b by linarith
  have 1: "e < ilog2 a + 1"
  proof (rule ccontr)
    assume "\<not> e < ilog2 a + 1"
    then have "ilog2 a + 1 \<le> e" by simp
    then have "(2::rat) powi (ilog2 a + 1) \<le> 2 powi e"
      by (intro power_int_increasing) simp_all
    with lt1 show False by linarith
  qed
  have lt2: "(2::rat) powi (ilog2 a) < 2 powi (e + 1)" using assms(2) b by linarith
  have 2: "ilog2 a < e + 1"
  proof (rule ccontr)
    assume "\<not> ilog2 a < e + 1"
    then have "e + 1 \<le> ilog2 a" by simp
    then have "(2::rat) powi (e + 1) \<le> 2 powi (ilog2 a)"
      by (intro power_int_increasing) simp_all
    with lt2 show False by linarith
  qed
  show ?thesis using 1 2 by simp
qed

lemma round_half_even_of_int [simp]: "round_half_even (of_int z) = z"
  by (simp add: round_half_even_def)

lemma fl_exact:
  assumes "2 powi e \<le> a" and "a < 2 powi (e + 1)" and "e < 1024"
    and "a / 2 powi (max (e - 52) (- 1074)) = of_int z"
  shows "fl a = Fin a"
proof -
  have apos: "0 < a" using assms(1) by (rule less_le_trans [rotated]) simp
  have e: "ilog2 a = e" using assms(1,2) by (rule ilog2_unique)
  have q: "quantum a = max (e - 52) (- 1074)" by (simp add: quantum_def e)
  have "round_to_quantum a = of_int z * pow2 (quantum a)"
    by (simp add: round_to_quantum_def q pow2_powi assms(4))
  also have "\<dots> = a / 2 powi (max (e - 52) (- 1074)) * 2 powi (max (e - 52) (- 1074))"
    by (simp add: q pow2_powi assms(4))
  also have "\<dots> = a" by simp
  finally have r: "round_to_quantum a = a" .
  show ?thesis using apos assms(3) by (simp add: fl_def Let_def r e)
qed

lemma fl_representable:
  "fl (2 ^ 53) = Fin (2 ^ 53)"
  "fl (2 ^ 60) = Fin (2 ^ 60)"
  "fl (5 / 2) = Fin (5 / 2)"
  "fl (1 / 2) = Fin (1 / 2)"
  "fl (321 / 128) = Fin (321 / 128)"
  "fl (63 / 128) = Fin (63 / 128)"
proof -
  show "fl (2 ^ 53) = Fin (2 ^ 53)"
    by (rule fl_exact [where e = 53 and z = "2 ^ 52"]) simp_all
  show "fl (2 ^ 60) = Fin (2 ^ 60)"
    by (rule fl_exact [where e = 60 and z = "2 ^ 52"]) simp_all
  show "fl (5 / 2) = Fin (5 / 2)"
    by (rule fl_exact [where e = 1 and z = "5 * 2 ^ 50"]) (simp_all add: power_int_minus)
  have a1: "(2::rat) powi (- 1) \<le> 1 / 2" by (simp add: power_int_minus)
  have a2: "(1 / 2 :: rat) < 2 powi (- 1 + 1)" by simp
  have a3: "(1 / 2 :: rat) / 2 powi (max (- 1 - 52) (- 1074)) = of_int (2 ^ 52)" by (simp add: power_int_minus)
  show "fl (1 / 2) = Fin (1 / 2)"
    by (rule fl_exact [where e = "- 1" and z = "2 ^ 52", OF a1 a2 _ a3]) simp
  show "fl (321 / 128) = Fin (321 / 128)"
    by (rule fl_exact [where e = 1 and z = "321 * 2 ^ 44"]) (simp_all add: power_int_minus)
  show "fl (63 / 128) = Fin (63 / 128)"
    by (rule fl_exact [where e = "- 2" and z = "63 * 2 ^ 47"]) (simp_all add: power_int_minus)
qed

section \<open>Properties of the decimal notation\<close>

text \<open>\<open>toFixed(2)\<close> of a number below \<open>10^21\<close> is the notation of its hundredths,
  and reading that notation back gives the hundredths divided by 100, rounded.\<close>

lemma of_char_digit_char: "d < 10 \<Longrightarrow> (of_char (digit_char d) :: nat) = 48 + d"
  by (simp add: digit_char_def)

lemma is_digit_digit_char [simp]: "d < 10 \<Longrightarrow> is_digit (digit_char d)"
  by (simp add: is_digit_def of_char_digit_char)

lemma digit_value_digit_char [simp]: "d < 10 \<Longrightarrow> digit_value (digit_char d) = d"
  by (simp add: digit_value_def of_char_digit_char Let_def)

lemma is_digit_not_white: "is_digit c \<Longrightarrow> \<not> isWhiteSpace c"
  by (auto simp: is_digit_def isWhiteSpace_def)

lemma show_nat_small: "n < 10 \<Longrightarrow> show_nat n = [digit_char n]"
  by (simp add: show_nat.simps [of n])

lemma show_nat_step: "10 \<le> n \<Longrightarrow> show_nat n = show_nat (n div 10) @ [digit_char (n mod 10)]"
  by (simp add: show_nat.simps [of n])

lemma show_nat_digits: "list_all is_digit (show_nat n)"
proof (induction n rule: show_nat.induct)
  case (1 n)
  show ?case
  proof (cases "n < 10")
    case True
    then show ?thesis by (simp add: show_nat_small)
  next
    case False
    then show ?thesis using 1 by (simp add: show_nat_step)
  qed
qed

lemma show_nat_nonempty [simp]: "show_nat n \<noteq> []"
  by (cases "n < 10") (simp_all add: show_nat_small show_nat_step)

lemma digits_value_snoc: "digits_value b (xs @ [c]) = digits_value b xs * b + digit_value c"
  by (simp add: digits_value_def)

lemma digits_value_show_nat: "digits_value 10 (show_nat n) = n"
proof (induction n rule: show_nat.induct)
  case (1 n)
  show ?case
  proof (cases "n < 10")
    case True
    then show ?thesis by (simp add: show_nat_small digits_value_def)
  next
    case False
    then show ?thesis using 1 by (simp add: show_nat_step digits_value_snoc)
  qed
qed

lemma digit_char_0: "digit_char 0 = CHR ''0''"
  by code_simp

lemma padded_two_decimals:
  "(let m = show_nat n;
        m' = (if (2::nat) \<noteq> 0 \<and> length m \<le> 2 then replicate (2 + 1 - length m) CHR ''0'' @ m else m)
    in take (length m' - 2) m' @ ''.'' @ drop (length m' - 2) m') = two_decimals n"
proof -
  consider "n < 10" | "10 \<le> n" "n < 100" | "100 \<le> n" by linarith
  then show ?thesis
  proof cases
    case 1
    then show ?thesis
      by (simp add: show_nat_small two_decimals_def digit_char_0 numeral_2_eq_2)
  next
    case 2
    then have "n div 10 < 10" by simp
    then have "show_nat n = [digit_char (n div 10), digit_char (n mod 10)]"
      using 2 by (simp add: show_nat_step show_nat_small)
    moreover have "n div 100 = 0" "n div 10 mod 10 = n div 10" using 2 by simp_all
    ultimately show ?thesis
      by (simp add: two_decimals_def show_nat_small digit_char_0)
  next
    case 3
    then have "10 \<le> n div 10" by simp
    then have "show_nat (n div 10) = show_nat (n div 10 div 10) @ [digit_char (n div 10 mod 10)]"
      by (rule show_nat_step)
    moreover have "n div 10 div 10 = n div 100" by (simp add: div_mult2_eq)
    ultimately have "show_nat n = show_nat (n div 100) @ [digit_char (n div 10 mod 10), digit_char (n mod 10)]"
      using 3 by (simp add: show_nat_step)
    moreover have "0 < length (show_nat (n div 100))" by simp
    ultimately show ?thesis
      by (simp add: two_decimals_def Let_def)
  qed
qed

lemma toFixed_two_decimals:
  assumes "0 \<le> a" and "a < 10 ^ 21"
  shows "toFixed 2 (Fin a) = two_decimals (nat \<lfloor>a * 100 + 1 / 2\<rfloor>)"
  using assms padded_two_decimals [of "nat \<lfloor>a * 100 + 1 / 2\<rfloor>"]
  by (simp add: toFixed_def Let_def)

lemma trim_id:
  assumes "s \<noteq> []" and "\<not> isWhiteSpace (hd s)" and "\<not> isWhiteSpace (last s)"
  shows "trim s = s"
proof -
  have 1: "dropWhile isWhiteSpace s = s"
    using assms by (simp add: dropWhile_eq_self_iff)
  have "rev s \<noteq> []" "\<not> isWhiteSpace (hd (rev s))"
    using assms by (simp_all add: hd_rev)
  then have 2: "dropWhile isWhiteSpace (rev s) = rev s"
    by (simp add: dropWhile_eq_self_iff)
  show ?thesis by (simp add: trim_def 1 2)
qed

lemma two_decimals_chars:
  "c \<in> set (two_decimals n) \<Longrightarrow> is_digit c \<or> c = CHR ''.''"
  using show_nat_digits [of "n div 100"]
  by (auto simp: two_decimals_def list_all_iff)

lemma not_startsWith:
  assumes "\<And>c. c \<in> set s \<Longrightarrow> is_digit c \<or> c = CHR ''.''"
    and "\<not> is_digit x" and "x \<noteq> CHR ''.''" and "x \<in> set p"
  shows "\<not> startsWith s p"
proof
  assume "startsWith s p"
  then obtain v where "s = p @ v" using startsWith_iff by blast
  then have "x \<in> set s" using assms(4) by simp
  then show False using assms(1-3) by blast
qed

lemma hundreds_tens_units: "(n div 100 * 10 + n div 10 mod 10) * 10 + n mod 10 = (n::nat)"
proof -
  have "n div 100 = n div 10 div 10" by (simp add: div_mult2_eq)
  then have "n div 100 * 10 + n div 10 mod 10 = n div 10" by simp
  then show ?thesis by simp
qed

lemma unsigned_decimal_two_decimals:
  "unsigned_decimal (two_decimals n) = Some (of_nat n / 100)"
proof -
  define q where "q = show_nat (n div 100)"
  define fp where "fp = [digit_char (n div 10 mod 10), digit_char (n mod 10)]"
  have s: "two_decimals n = q @ CHR ''.'' # fp" by (simp add: two_decimals_def q_def fp_def)
  have qd: "\<And>c. c \<in> set q \<Longrightarrow> is_digit c"
    using show_nat_digits [of "n div 100"] by (simp add: q_def list_all_iff)
  have dot: "\<not> is_digit CHR ''.''" by (simp add: is_digit_def)
  have fpd: "list_all is_digit fp" by (simp add: fp_def)
  have tw: "takeWhile is_digit (q @ CHR ''.'' # fp) = q"
    using qd dot by (simp add: takeWhile_append2)
  have dw: "dropWhile is_digit (q @ CHR ''.'' # fp) = CHR ''.'' # fp"
    using qd dot by (simp add: dropWhile_append2)
  have tw2: "takeWhile is_digit fp = fp" using fpd by (simp add: fp_def)
  have dw2: "dropWhile is_digit fp = []" using fpd by (simp add: fp_def)
  have qne: "q \<noteq> []" by (simp add: q_def)
  have val: "digits_value 10 (q @ fp) = n"
  proof -
    have "digits_value 10 (q @ fp) = (n div 100 * 10 + n div 10 mod 10) * 10 + n mod 10"
      using digits_value_snoc [of 10 "q @ [digit_char (n div 10 mod 10)]" "digit_char (n mod 10)"]
        digits_value_snoc [of 10 q "digit_char (n div 10 mod 10)"]
      by (simp add: fp_def q_def digits_value_show_nat)
    also have "\<dots> = n" by (rule hundreds_tens_units)
    finally show ?thesis .
  qed
  have lfp: "length fp = 2" by (simp add: fp_def)
  show ?thesis
    unfolding s
    by (simp add: unsigned_decimal_def Let_def tw dw tw2 dw2 qne exponent_part_def val lfp)
qed

lemma StringToNumber_two_decimals:
  "StringToNumber (two_decimals n) = fl (of_nat n / 100)"
proof -
  let ?s = "two_decimals n"
  have ne: "?s \<noteq> []" by (simp add: two_decimals_def)
  have hd_digit: "is_digit (hd ?s)"
    using show_nat_digits [of "n div 100"] show_nat_nonempty [of "n div 100"]
    by (cases "show_nat (n div 100)") (simp_all add: two_decimals_def)
  have last_digit: "is_digit (last ?s)" by (simp add: two_decimals_def)
  have t: "trim ?s = ?s"
    using ne hd_digit last_digit by (intro trim_id is_digit_not_white)
  have ch: "\<And>c. c \<in> set ?s \<Longrightarrow> is_digit c \<or> c = CHR ''.''" by (rule two_decimals_chars)
  have p: "\<not> startsWith ?s ''0x''" "\<not> startsWith ?s ''0X''" "\<not> startsWith ?s ''0o''"
    "\<not> startsWith ?s ''0O''" "\<not> startsWith ?s ''0b''" "\<not> startsWith ?s ''0B''"
    by (rule not_startsWith [OF ch, where x = "CHR ''x''"], simp_all add: is_digit_def,
        rule not_startsWith [OF ch, where x = "CHR ''X''"], simp_all add: is_digit_def,
        rule not_startsWith [OF ch, where x = "CHR ''o''"], simp_all add: is_digit_def,
        rule not_startsWith [OF ch, where x = "CHR ''O''"], simp_all add: is_digit_def,
        rule not_startsWith [OF ch, where x = "CHR ''b''"], simp_all add: is_digit_def,
        rule not_startsWith [OF ch, where x = "CHR ''B''"], simp_all add: is_digit_def)
  have sign: "hd ?s \<noteq> CHR ''-''" "hd ?s \<noteq> CHR ''+''"
    using hd_digit by (auto simp: is_digit_def)
  have inf: "?s \<noteq> ''Infinity''"
  proof
    assume "?s = ''Infinity''"
    then have "CHR ''I'' \<in> set ?s" by simp
    then show False using ch [of "CHR ''I''"] by (simp add: is_digit_def)
  qed
  show ?thesis
    by (simp add: StringToNumber_def Let_def t ne p sign inf unsigned_decimal_two_decimals)
qed

section \<open>Properties of the content checks\<close>

text \<open>C4: an empty title gives one bad recommendation and nothing more. A title that is
  not empty gives first the length result, good when the length is in 30..60 and
  otherwise bad with the character count in the text, and then, only when the keyword
  is set, the keyword result: good when the lower-cased title contains the keyword, bad
  when it does not.\<close>

theorem checkTitle_spec:
  "checkTitle title keyword rl = rl @
     (if title = [] then
        [\<lparr>innerHTML = red_circle @ '' <strong>Page Title:</strong> You are missing a page title (H1). This is a critical SEO element.'', className = Bad\<rparr>]
      else
        [if 30 \<le> length title \<and> length title \<le> 60
         then \<lparr>innerHTML = green_circle @ '' <strong>Page Title:</strong> Your title length is good.'', className = Good\<rparr>
         else \<lparr>innerHTML = red_circle @ '' <strong>Page Title:</strong> Your title is '' @ show_nat (length title) @ '' characters. Aim for 30-60 characters.'', className = Bad\<rparr>]
        @ (if keyword = [] then []
           else [if (\<exists>u v. toLowerCase title = u @ keyword @ v)
                 then \<lparr>innerHTML = green_circle @ '' <strong>Page Title:</strong> Your focus keyword is in the title. Great!'', className = Good\<rparr>
                 else \<lparr>innerHTML = red_circle @ '' <strong>Page Title:</strong> Your focus keyword was not found in the title. Try to add it near the beginning.'', className = Bad\<rparr>]))"
  by (simp add: checkTitle_def addRecommendation_def includes_str_iff Let_def not_less not_le)

lemma targets_disjoint: "\<not> (external_target link \<and> internal_target link)"
  by (auto simp: external_target_def internal_target_def startsWith_Cons split: option.splits)

lemma countLink_step:
  "countLink link (e, i) =
     (e + (if external_target link then 1 else 0), i + (if internal_target link then 1 else 0))"
  using targets_disjoint [of link]
  by (auto simp: countLink_def external_target_def internal_target_def split: option.splits)

lemma fold_countLink:
  "fold countLink links (e, i) =
     (e + length (filter external_target links), i + length (filter internal_target links))"
  by (induction links arbitrary: e i) (simp_all add: countLink_step)

text \<open>C8: the links check counts the external and the internal links, no link is both,
  and it always appends exactly two recommendations: for the external count info when
  it is zero and good with the count otherwise, for the internal count bad when it is
  zero and good with the count otherwise.\<close>

theorem checkLinks_spec:
  "checkLinks doc rl = rl @
     [if length (filter external_target (anchors doc)) = 0
      then \<lparr>innerHTML = white_circle @ '' <strong>Outbound Links:</strong> You have no outbound links. Try linking to other high-authority websites.'', className = Info\<rparr>
      else \<lparr>innerHTML = green_circle @ '' <strong>Outbound Links:</strong> You have '' @ show_nat (length (filter external_target (anchors doc))) @ '' outbound link(s).'', className = Good\<rparr>,
      if length (filter internal_target (anchors doc)) = 0
      then \<lparr>innerHTML = red_circle @ '' <strong>Internal Links:</strong> You have no internal links. Link to other pages on your own site.'', className = Bad\<rparr>
      else \<lparr>innerHTML = green_circle @ '' <strong>Internal Links:</strong> You have '' @ show_nat (length (filter internal_target (anchors doc))) @ '' internal link(s).'', className = Good\<rparr>]
   \<and> \<not> (\<exists>link. external_target link \<and> internal_target link)"
  using targets_disjoint
  by (simp add: checkLinks_def fold_countLink addRecommendation_def Let_def)

lemma countMissingAlt_step:
  "countMissingAlt img n = n + (if alt_missing img then 1 else 0)"
  by (auto simp: countMissingAlt_def alt_missing_def split: option.splits)

lemma fold_countMissingAlt:
  "fold countMissingAlt images n = n + length (filter alt_missing images)"
  by (induction images arbitrary: n) (simp_all add: countMissingAlt_step)

text \<open>C9: with no image the images check appends one info recommendation; otherwise it
  appends one recommendation, bad with the number of images whose alternative text is
  absent or trims to empty when that number is positive, good with the number of images
  when it is zero.\<close>

theorem checkImages_spec:
  "checkImages doc rl = rl @
     [if imgs doc = []
      then \<lparr>innerHTML = white_circle @ '' <strong>Images:</strong> Your content doesn't seem to have any images. Consider adding some.'', className = Info\<rparr>
      else if length (filter alt_missing (imgs doc)) > 0
      then \<lparr>innerHTML = red_circle @ '' <strong>Image SEO:</strong> You have '' @ show_nat (length (filter alt_missing (imgs doc))) @ '' image(s) missing an 'alt' tag. Add descriptive alt tags to all images.'', className = Bad\<rparr>
      else \<lparr>innerHTML = green_circle @ '' <strong>Image SEO:</strong> All '' @ show_nat (length (imgs doc)) @ '' image(s) have alt tags. Well done!'', className = Good\<rparr>]"
  by (simp add: checkImages_def fold_countMissingAlt addRecommendation_def Let_def)

section \<open>Properties of the keyword density check\<close>

lemma count_matches_le: "count_matches ts skip s \<le> length s + 1"
proof (induction s arbitrary: skip)
  case Nil
  show ?case by simp
next
  case (Cons c s)
  show ?case
    using Cons [of "skip - 1"] Cons [of 0] Cons [of "hd (match_ends ts (c # s)) - 1"]
    by (auto split: list.splits)
qed

lemma match_count_le: "match_count re s \<le> length s + 1"
  using count_matches_le [of re 0 s] by (simp add: match_count_def)

lemma density_of_range:
  assumes "0 < w" and "k \<le> 2 ^ 53"
  shows "\<exists>x. density_of k w = Fin x \<and> 0 \<le> x \<and> x < 10 ^ 21"
proof -
  have "(of_nat k :: rat) \<le> of_nat (2 ^ 53)" using assms(2) by (simp only: of_nat_le_iff)
  then have k: "(of_nat k :: rat) \<le> 2 ^ 53" by simp
  have w: "(1::rat) \<le> of_nat w" using assms(1) by simp
  have "(of_nat k :: rat) / of_nat w \<le> of_nat k / 1"
    using w by (intro divide_left_mono) simp_all
  then have "(of_nat k :: rat) / of_nat w \<le> 2 ^ 53" using k by simp
  moreover have "0 \<le> (of_nat k :: rat) / of_nat w" by simp
  ultimately obtain y where y: "fl (of_nat k / of_nat w) = Fin y" "0 \<le> y" "y \<le> 2 ^ 53"
    using fl_le [OF _ _ fl_representable(1)] by blast
  have "y * 100 \<le> 2 ^ 60" using y(3) by simp
  moreover have "0 \<le> y * 100" using y(2) by simp
  ultimately obtain x where x: "fl (y * 100) = Fin x" "0 \<le> x" "x \<le> 2 ^ 60"
    using fl_le [OF _ _ fl_representable(2)] by blast
  have "density_of k w = Fin x"
    using assms(1) y(1) x(1) by (simp add: density_of_def js_div_def js_mul_def)
  moreover have "x < 10 ^ 21" using x(3) by simp
  ultimately show ?thesis using x(2) by blast
qed

lemma hundredths_above:
  "js_gt (fl (of_nat n / 100)) (Fin (5 / 2)) \<longleftrightarrow> 250 < n"
proof
  assume gt: "js_gt (fl (of_nat n / 100)) (Fin (5 / 2))"
  show "250 < n"
  proof (rule ccontr)
    assume "\<not> 250 < n"
    then have "n \<le> 250" by simp
    then have "(of_nat n :: rat) \<le> of_nat 250" by (simp only: of_nat_le_iff)
    then have "(of_nat n :: rat) / 100 \<le> 5 / 2" by simp
    then obtain r where "fl (of_nat n / 100) = Fin r" "r \<le> 5 / 2"
      using fl_le [OF _ _ fl_representable(3), of "of_nat n / 100"] by auto
    then show False using gt by (simp add: js_gt_def js_lt_def)
  qed
next
  assume "250 < n"
  then have "251 \<le> n" by simp
  then have "(of_nat 251 :: rat) \<le> of_nat n" by (simp only: of_nat_le_iff)
  then have "(321 / 128 :: rat) \<le> of_nat n / 100" by simp
  then have "fl (of_nat n / 100) = Infinity \<or> (\<exists>r. fl (of_nat n / 100) = Fin r \<and> 321 / 128 \<le> r)"
    by (intro fl_ge [OF _ _ fl_representable(5)]) simp_all
  then show "js_gt (fl (of_nat n / 100)) (Fin (5 / 2))"
    by (auto simp: js_gt_def js_lt_def)
qed

lemma hundredths_below:
  "js_lt (fl (of_nat n / 100)) (Fin (1 / 2)) \<longleftrightarrow> n < 50"
proof
  assume lt: "js_lt (fl (of_nat n / 100)) (Fin (1 / 2))"
  show "n < 50"
  proof (rule ccontr)
    assume "\<not> n < 50"
    then have "50 \<le> n" by simp
    then have "(of_nat 50 :: rat) \<le> of_nat n" by (simp only: of_nat_le_iff)
    then have "(1 / 2 :: rat) \<le> of_nat n / 100" by simp
    then have "fl (of_nat n / 100) = Infinity \<or> (\<exists>r. fl (of_nat n / 100) = Fin r \<and> 1 / 2 \<le> r)"
      by (intro fl_ge [OF _ _ fl_representable(4)]) simp_all
    then show False using lt by (auto simp: js_lt_def)
  qed
next
  assume "n < 50"
  then have "n \<le> 49" by simp
  then have "(of_nat n :: rat) \<le> of_nat 49" by (simp only: of_nat_le_iff)
  then have "(of_nat n :: rat) / 100 \<le> 63 / 128" by simp
  then obtain r where "fl (of_nat n / 100) = Fin r" "r \<le> 63 / 128"
    using fl_le [OF _ _ fl_representable(6), of "of_nat n / 100"] by auto
  then show "js_lt (fl (of_nat n / 100)) (Fin (1 / 2))" by (simp add: js_lt_def)
qed

lemma new_RegExp_g_parsed:
  "parse_pattern pattern = Parsed ts \<Longrightarrow> new_RegExp_g engine pattern = Normal (match_count ts)"
  by (simp add: new_RegExp_g_def)

lemma new_RegExp_g_invalid:
  "parse_pattern pattern = Invalid \<Longrightarrow> new_RegExp_g engine pattern = Throw SyntaxError"
  by (simp add: new_RegExp_g_def)

lemma checkKeywordDensity_throws:
  assumes "keyword \<noteq> []" and "new_RegExp_g engine keyword = Throw e"
  shows "checkKeywordDensity engine textContent keyword wordCount rl = Throw e"
  using assms by (simp add: checkKeywordDensity_def)

lemma checkKeywordDensity_compiled:
  assumes "keyword \<noteq> []" and "new_RegExp_g engine keyword = Normal re"
  shows "checkKeywordDensity engine textContent keyword wordCount rl =
     (let density = toFixed 2 (density_of (re (toLowerCase textContent)) wordCount)
      in Normal (rl @
        [if js_gt (StringToNumber density) (Fin (5 / 2)) then
           \<lparr>innerHTML = red_circle @ '' <strong>Keyword Density:</strong> '' @ density @ ''%. This is too high (keyword stuffing). Try to reduce it.'', className = Bad\<rparr>
         else if js_lt (StringToNumber density) (Fin (1 / 2)) then
           \<lparr>innerHTML = white_circle @ '' <strong>Keyword Density:</strong> '' @ density @ ''%. This is low. Try to include the keyword a few more times naturally.'', className = Info\<rparr>
         else
           \<lparr>innerHTML = green_circle @ '' <strong>Keyword Density:</strong> '' @ density @ ''%. This is a good density.'', className = Good\<rparr>]))"
  using assms by (simp add: checkKeywordDensity_def density_of_def Let_def addRecommendation_def)

text \<open>With a keyword that compiles, a positive word count and a number of matches of
  at most \<open>2^53\<close> (it is the length of an array), the check appends exactly one
  recommendation, classified by the density rounded to two decimals, here as its
  hundredths \<open>n\<close>: bad above 2.50, info below 0.50, good otherwise; the text shows the
  density with two decimals.\<close>

lemma density_recommendation:
  assumes "keyword \<noteq> []" and "new_RegExp_g engine keyword = Normal re"
    and "0 < wordCount" and "re (toLowerCase textContent) \<le> 2 ^ 53"
  shows "checkKeywordDensity engine textContent keyword wordCount rl =
     (let n = hundredths (density_of (re (toLowerCase textContent)) wordCount)
      in Normal (rl @
        [if 250 < n then
           \<lparr>innerHTML = red_circle @ '' <strong>Keyword Density:</strong> '' @ two_decimals n @ ''%. This is too high (keyword stuffing). Try to reduce it.'', className = Bad\<rparr>
         else if n < 50 then
           \<lparr>innerHTML = white_circle @ '' <strong>Keyword Density:</strong> '' @ two_decimals n @ ''%. This is low. Try to include the keyword a few more times naturally.'', className = Info\<rparr>
         else
           \<lparr>innerHTML = green_circle @ '' <strong>Keyword Density:</strong> '' @ two_decimals n @ ''%. This is a good density.'', className = Good\<rparr>]))"
proof -
  define k where "k = re (toLowerCase textContent)"
  have "k \<le> 2 ^ 53" using assms(4) by (simp add: k_def)
  then obtain x where x: "density_of k wordCount = Fin x" "0 \<le> x" "x < 10 ^ 21"
    using density_of_range [OF assms(3)] by blast
  define n where "n = nat \<lfloor>x * 100 + 1 / 2\<rfloor>"
  have h: "hundredths (density_of k wordCount) = n" by (simp add: hundredths_def x(1) n_def)
  have d: "toFixed 2 (density_of k wordCount) = two_decimals n"
    using toFixed_two_decimals [OF x(2,3)] by (simp add: x(1) n_def)
  show ?thesis
    unfolding checkKeywordDensity_compiled [OF assms(1,2)] k_def [symmetric]
    by (simp add: d h Let_def StringToNumber_two_decimals hundredths_above hundredths_below)
qed

text \<open>With no keyword the check appends one info recommendation and nothing else.\<close>

lemma density_without_keyword:
  "checkKeywordDensity engine textContent [] wordCount rl =
     Normal (rl @ [\<lparr>innerHTML = white_circle @ '' <strong>Focus Keyword:</strong> You have not set a focus keyword.'', className = Info\<rparr>])"
  by (simp add: checkKeywordDensity_def addRecommendation_def)

section \<open>The claims on the keyword density check\<close>

lemma digit_chars:
  "digit_char 0 = CHR ''0''" "digit_char 1 = CHR ''1''" "digit_char 2 = CHR ''2''"
  "digit_char 3 = CHR ''3''" "digit_char 4 = CHR ''4''" "digit_char 5 = CHR ''5''"
  "digit_char 6 = CHR ''6''" "digit_char 7 = CHR ''7''" "digit_char 8 = CHR ''8''"
  "digit_char 9 = CHR ''9''" "digit_char (Suc 0) = CHR ''1''"
  by code_simp+

lemma floor_rat_numeral [simp]: "\<lfloor>numeral a / numeral b :: rat\<rfloor> = numeral a div numeral b"
  by (metis floor_divide_of_int_eq of_int_numeral)

lemma fl_small: "fl 1 = Fin 1" "fl 100 = Fin 100"
proof -
  show "fl 1 = Fin 1"
    by (rule fl_exact [where e = 0 and z = "2 ^ 52"]) (simp_all add: power_int_minus)
  show "fl 100 = Fin 100"
    by (rule fl_exact [where e = 6 and z = "100 * 2 ^ 46"]) (simp_all add: power_int_minus)
qed

lemma density_of_zero_words: "density_of k 0 = (if k = 0 then NaN else Infinity)"
  by (simp add: density_of_def js_div_def js_mul_def is_neg_def)

lemma toFixed_not_finite: "toFixed 2 NaN = ''NaN''" "toFixed 2 Infinity = ''Infinity''"
  by (simp_all add: toFixed_def)

lemma StringToNumber_not_finite: "StringToNumber ''NaN'' = NaN" "StringToNumber ''Infinity'' = Infinity"
  by code_simp+

lemma compare_not_finite:
  "js_gt Infinity (Fin (5 / 2))" "\<not> js_gt NaN (Fin (5 / 2))" "\<not> js_lt NaN (Fin (1 / 2))"
  by (simp_all add: js_gt_def js_lt_def)

lemma parse_seo: "parse_pattern ''seo'' = Parsed seo_regex"
  by code_simp

lemma count_seo: "match_count seo_regex (toLowerCase ''Learn SEO fast'') = 1"
  by code_simp

lemma no_seo_in_blank: "match_count seo_regex (toLowerCase '' '') = 0"
  by code_simp

lemma parse_dot: "parse_pattern ''.'' = Parsed [(AnyChar, Once)]"
  by code_simp

lemma dot_in_blank: "match_count [(AnyChar, Once)] (toLowerCase '' '') = 1"
  by code_simp

lemma parse_a_dot_c: "parse_pattern ''a.c'' = Parsed [(Lit CHR ''a'', Once), (AnyChar, Once), (Lit CHR ''c'', Once)]"
  by code_simp

lemma a_dot_c_in_abc:
  "match_count [(Lit CHR ''a'', Once), (AnyChar, Once), (Lit CHR ''c'', Once)] (toLowerCase ''abc'') = 1"
  by code_simp

lemma whole_density: "hundredths (density_of (Suc 0) (Suc 0)) = 10000"
  by (simp add: hundredths_def density_of_def js_div_def js_mul_def fl_small)

lemma whole_density_text: "two_decimals 10000 = ''100.00''"
  by (simp add: two_decimals_def show_nat.simps digit_chars)

lemma third_density: "hundredths (density_of (Suc 0) 3) = 3333" "two_decimals 3333 = ''33.33''"
  by code_simp+

lemma parse_cpp: "parse_pattern ''c++'' = Invalid"
  by code_simp

lemma abc_without_a_dot_c: "\<not> includes_str ''abc'' ''a.c''"
  by code_simp

text \<open>The density of one match in three words, for every engine: 33.33 percent, bad.\<close>

lemma density_example:
  "checkKeywordDensity engine ''Learn SEO fast'' ''seo'' 3 [] =
     Normal [\<lparr>innerHTML = red_circle @ '' <strong>Keyword Density:</strong> 33.33%. This is too high (keyword stuffing). Try to reduce it.'', className = Bad\<rparr>]"
proof -
  have ne: "''seo'' \<noteq> []" by simp
  have few: "match_count seo_regex (toLowerCase ''Learn SEO fast'') \<le> 2 ^ 53" by (simp add: count_seo)
  show ?thesis
    using density_recommendation [OF ne new_RegExp_g_parsed [OF parse_seo] _ few, of 3 engine "[]"]
    by (simp add: count_seo third_density Let_def)
qed

text \<open>C2 does not hold of the code: with the text \<open>Learn C++ fast\<close> of three words and
  the keyword \<open>c++\<close> the constructor of the regular expression throws a
  \<open>SyntaxError\<close>, whatever the engine, and the check appends no recommendation, where
  the claim has exactly one.\<close>

theorem keyword_density_throws:
  "checkKeywordDensity engine ''Learn C++ fast'' ''c++'' 3 rl = Throw SyntaxError"
proof -
  have ne: "''c++'' \<noteq> []" by simp
  show ?thesis
    using ne new_RegExp_g_invalid [OF parse_cpp] by (rule checkKeywordDensity_throws)
qed

text \<open>C3: the keyword \<open>c++\<close> makes the check throw a \<open>SyntaxError\<close>, whatever the
  text and the word count; and the keyword \<open>a.c\<close> counts one occurrence in \<open>abc\<close>,
  a text that does not contain it.\<close>

theorem keyword_regex_unescaped:
  "checkKeywordDensity engine textContent ''c++'' wordCount rl = Throw SyntaxError
   \<and> checkKeywordDensity engine ''abc'' ''a.c'' 1 [] =
       Normal [\<lparr>innerHTML = red_circle @ '' <strong>Keyword Density:</strong> 100.00%. This is too high (keyword stuffing). Try to reduce it.'', className = Bad\<rparr>]
   \<and> \<not> includes_str ''abc'' ''a.c''"
proof (intro conjI)
  show "checkKeywordDensity engine textContent ''c++'' wordCount rl = Throw SyntaxError"
    by (simp add: checkKeywordDensity_def new_RegExp_g_invalid [OF parse_cpp])
  have ne: "''a.c'' \<noteq> []" by simp
  have few: "match_count [(Lit CHR ''a'', Once), (AnyChar, Once), (Lit CHR ''c'', Once)] (toLowerCase ''abc'') \<le> 2 ^ 53"
    by (simp add: a_dot_c_in_abc)
  show "checkKeywordDensity engine ''abc'' ''a.c'' 1 [] =
       Normal [\<lparr>innerHTML = red_circle @ '' <strong>Keyword Density:</strong> 100.00%. This is too high (keyword stuffing). Try to reduce it.'', className = Bad\<rparr>]"
    using density_recommendation [OF ne new_RegExp_g_parsed [OF parse_a_dot_c] _ few, of 1 engine "[]"]
    by (simp add: a_dot_c_in_abc whole_density whole_density_text Let_def)
  show "\<not> includes_str ''abc'' ''a.c''" by (rule abc_without_a_dot_c)
qed

text \<open>C10, as amended: with a keyword that compiles, on whatever engine, and a word
  count of zero the check does not throw and appends exactly one recommendation.
  Without a match the density is NaN, shown as \<open>NaN%\<close>, neither comparison holds and
  the recommendation is good; with a match or more the density is Infinity, shown as
  \<open>Infinity%\<close>, and the recommendation is bad.\<close>

theorem zero_word_count:
  assumes "keyword \<noteq> []" and "new_RegExp_g engine keyword = Normal re"
  shows "checkKeywordDensity engine textContent keyword 0 rl =
     Normal (rl @
       [if re (toLowerCase textContent) = 0
        then \<lparr>innerHTML = green_circle @ '' <strong>Keyword Density:</strong> NaN%. This is a good density.'', className = Good\<rparr>
        else \<lparr>innerHTML = red_circle @ '' <strong>Keyword Density:</strong> Infinity%. This is too high (keyword stuffing). Try to reduce it.'', className = Bad\<rparr>])"
  unfolding checkKeywordDensity_compiled [OF assms]
  by (simp add: density_of_zero_words toFixed_not_finite StringToNumber_not_finite compare_not_finite)

text \<open>The theorem at a text of one space, which has no word, and the keyword
  \<open>seo\<close>.\<close>

theorem zero_word_count_witness:
  "checkKeywordDensity no_engine '' '' ''seo'' 0 [] =
     Normal [\<lparr>innerHTML = green_circle @ '' <strong>Keyword Density:</strong> NaN%. This is a good density.'', className = Good\<rparr>]"
  using zero_word_count [OF _ new_RegExp_g_parsed [OF parse_seo], of no_engine "'' ''" "[]"]
  by (simp add: no_seo_in_blank)

text \<open>The claim as stated fails when the keyword matches in a text without words:
  the dot matches the space, the density is Infinity and the recommendation is bad.\<close>

theorem zero_word_count_counterexample:
  "checkKeywordDensity no_engine '' '' ''.'' 0 [] =
     Normal [\<lparr>innerHTML = red_circle @ '' <strong>Keyword Density:</strong> Infinity%. This is too high (keyword stuffing). Try to reduce it.'', className = Bad\<rparr>]"
proof -
  have ne: "''.'' \<noteq> []" by simp
  show ?thesis
    unfolding checkKeywordDensity_compiled [OF ne new_RegExp_g_parsed [OF parse_dot]]
    by (simp add: dot_in_blank density_of_zero_words toFixed_not_finite
        StringToNumber_not_finite compare_not_finite)
qed

section \<open>Properties of the projection\<close>

lemma seq_None: "s1 l = (l1, None) \<Longrightarrow> seq s1 s2 l = s2 l1"
  by (simp add: seq_def)

lemma seq_Some: "s1 l = (l1, Some e) \<Longrightarrow> seq s1 s2 l = (l1, Some e)"
  by (simp add: seq_def)

lemma with_value_Inr [simp]: "with_value (Inr v) k l = k v l"
  by (simp add: with_value_def)

lemma with_value_Inl [simp]: "with_value (Inl e) k l = (l, Some e)"
  by (simp add: with_value_def)

lemma Get_truthy: "ToBoolean v \<Longrightarrow> \<exists>x. Get v k = Inr x"
  by (cases v) (auto simp: Get_def ToBoolean_def split: option.splits)

lemma Get_Obj [simp]: "Get (Obj kvs) k = Inr (lookup kvs k)"
  by (simp add: Get_def lookup_def)

lemma Get_score: "ToBoolean v \<Longrightarrow> Get v ''score'' = Inr (score_of v)"
  using Get_truthy [of v "''score''"] by (auto simp: score_of_def)

lemma ToNumber_Num [simp]: "ToNumber (Num n) = Inr n"
  by (simp add: ToNumber_def)





lemma seq_addScoreCard:
  "seq (addScoreCard t s) s2 l = s2 (fst (addScoreCard t s l))"
  by (simp add: seq_def addScoreCard_def Let_def)

lemma seq_addUrlRecommendation:
  "seq (addUrlRecommendation t ty) s2 l = s2 (l @ [Recommendation t ty])"
  by (simp add: seq_def addUrlRecommendation_def)











lemma array_index_0: "array_index ''0'' = Some 0"
  by code_simp

lemma Get_Arr_0 [simp]: "Get (Arr (x # xs)) ''0'' = Inr x"
  by (simp add: Get_def array_index_0)

lemma seq_lcpMessage:
  "map_of metrics ''largestContentfulPaint'' = Some (Num lcp) \<Longrightarrow>
   seq (lcpMessage (Obj metrics)) s2 l =
     s2 (l @ [Recommendation
               (white_circle @ '' **LCP:** '' @
                  (if js_le lcp (Fin 2500) then ''Good''
                   else if js_le lcp (Fin 4000) then ''Needs Improvement'' else ''Poor'') @
                  '' ('' @ toFixed 2 (js_div lcp (Fin 1000)) @ ''s). Aim for < 2.5s.'')
               (if js_le lcp (Fin 2500) then Good else if js_le lcp (Fin 4000) then Info else Bad)])"
  by (simp add: lcpMessage_def lookup_def Let_def seq_def addUrlRecommendation_def)

lemma seq_clsMessage:
  "map_of metrics ''cumulativeLayoutShift'' = Some (Num cls) \<Longrightarrow>
   seq (clsMessage (Obj metrics)) s2 l =
     s2 (l @ [Recommendation
               (white_circle @ '' **CLS:** '' @
                  (if js_le cls (fl (1 / 10)) then ''Good''
                   else if js_le cls (Fin (1 / 4)) then ''Needs Improvement'' else ''Poor'') @
                  '' ('' @ toFixed 3 cls @ ''). Aim for < 0.1.'')
               (if js_le cls (fl (1 / 10)) then Good else if js_le cls (Fin (1 / 4)) then Info else Bad)])"
  by (simp add: clsMessage_def lookup_def Let_def seq_def addUrlRecommendation_def call_toFixed_def)

lemma tbtMessage_Num:
  "map_of metrics ''totalBlockingTime'' = Some (Num tbt) \<Longrightarrow>
   tbtMessage (Obj metrics) l =
     (l @ [Recommendation
               (white_circle @ '' **TBT (Proxy for INP):** '' @
                  (if js_le tbt (Fin 200) then ''Good (Low Blocking Time)'' else ''Poor (High Blocking Time)'') @
                  '' ('' @ toFixed 0 tbt @ ''ms). Aim for < 200ms.'')
               (if js_le tbt (Fin 200) then Good else Bad)], None)"
  by (simp add: tbtMessage_def lookup_def Let_def addUrlRecommendation_def call_toFixed_def)

text \<open>C6, as amended: with the performance category present, its score a value that
  converts to a number, and a metrics item whose three values are numbers, part 1
  appends the score card, the header and one
  recommendation for each of LCP, CLS and TBT, classified independently: LCP good up to
  2500, info up to 4000 and bad beyond, shown as \<open>(lcp / 1000).toFixed(2)\<close>; CLS good
  up to 0.1, info up to 0.25 and bad beyond, shown as \<open>cls.toFixed(3)\<close>; TBT good up
  to 200 and bad beyond, shown as \<open>tbt.toFixed(0)\<close>.\<close>

theorem core_web_vitals:
  assumes "getCategory lighthouseResult ''performance'' = Inr performanceCategory"
    and "ToBoolean performanceCategory"
    and "ToNumber (score_of performanceCategory) = Inr score"
    and "metricsItem audits = Inr (Obj metrics)"
    and "map_of metrics ''largestContentfulPaint'' = Some (Num lcp)"
    and "map_of metrics ''cumulativeLayoutShift'' = Some (Num cls)"
    and "map_of metrics ''totalBlockingTime'' = Some (Num tbt)"
  shows "performancePart lighthouseResult audits l =
     (fst (addScoreCard ''Performance Score'' (js_mul score (Fin 100)) l) @
      [Recommendation (green_circle @ '' **Core Web Vitals Check**'') Good,
       Recommendation
         (white_circle @ '' **LCP:** '' @
            (if js_le lcp (Fin 2500) then ''Good''
             else if js_le lcp (Fin 4000) then ''Needs Improvement'' else ''Poor'') @
            '' ('' @ toFixed 2 (js_div lcp (Fin 1000)) @ ''s). Aim for < 2.5s.'')
         (if js_le lcp (Fin 2500) then Good else if js_le lcp (Fin 4000) then Info else Bad),
       Recommendation
         (white_circle @ '' **CLS:** '' @
            (if js_le cls (fl (1 / 10)) then ''Good''
             else if js_le cls (Fin (1 / 4)) then ''Needs Improvement'' else ''Poor'') @
            '' ('' @ toFixed 3 cls @ ''). Aim for < 0.1.'')
         (if js_le cls (fl (1 / 10)) then Good else if js_le cls (Fin (1 / 4)) then Info else Bad),
       Recommendation
         (white_circle @ '' **TBT (Proxy for INP):** '' @
            (if js_le tbt (Fin 200) then ''Good (Low Blocking Time)'' else ''Poor (High Blocking Time)'') @
            '' ('' @ toFixed 0 tbt @ ''ms). Aim for < 200ms.'')
         (if js_le tbt (Fin 200) then Good else Bad)],
      None)"
  using assms
  by (simp add: performancePart_def Get_score Let_def seq_addScoreCard seq_addUrlRecommendation
      ToBoolean_def seq_lcpMessage seq_clsMessage tbtMessage_Num)

lemma example_lcp: "toFixed 2 (js_div (Fin 2000) (Fin 1000)) = ''2.00''"
  by code_simp

lemma example_cls: "toFixed 3 example_cls = ''0.150''"
  by code_simp

lemma example_tbt: "toFixed 0 (Fin 250) = ''250''"
  by code_simp

lemma example_classes:
  "js_le (Fin 2000) (Fin 2500)"
  "\<not> js_le example_cls (fl (1 / 10))" "js_le example_cls (Fin (1 / 4))"
  "\<not> js_le (Fin 250) (Fin 200)"
  by code_simp+

lemma example_score: "addScoreCard ''Performance Score'' (js_mul (Fin (1 / 2)) (Fin 100)) [] =
    ([ScoreCard ''Performance Score'' ''#ffa726'' ''50''], None)"
  by code_simp

lemma example_category: "getCategory example_result ''performance'' = Inr (Obj [(''score'', Num (Fin (1 / 2)))])"
  by (simp add: example_result_def getCategory_def bindE_def lookup_def)

lemma example_metricsItem: "metricsItem (Obj example_audits) = Inr (Obj example_metrics)"
  by (simp add: metricsItem_def example_audits_def bindE_def lookup_def ToBoolean_def)

text \<open>The theorem at the example: LCP 2000 gives good with \<open>2.00s\<close>, CLS 0.15 gives
  info with \<open>0.150\<close>, TBT 250 gives bad with \<open>250ms\<close>.\<close>

theorem core_web_vitals_example:
  "performancePart example_result (Obj example_audits) [] =
     ([ScoreCard ''Performance Score'' ''#ffa726'' ''50'',
       Recommendation (green_circle @ '' **Core Web Vitals Check**'') Good,
       Recommendation (white_circle @ '' **LCP:** Good (2.00s). Aim for < 2.5s.'') Good,
       Recommendation (white_circle @ '' **CLS:** Needs Improvement (0.150). Aim for < 0.1.'') Info,
       Recommendation (white_circle @ '' **TBT (Proxy for INP):** Poor (High Blocking Time) (250ms). Aim for < 200ms.'') Bad],
      None)"
  using core_web_vitals [OF example_category _ _ example_metricsItem, of "Fin (1 / 2)" "Fin 2000" example_cls "Fin 250" "[]"]
  by (simp add: ToBoolean_def example_metrics_def example_lcp example_cls example_tbt example_classes
      example_score score_of_def lookup_def)


text \<open>The claim's own example is wrong in one place: for LCP 2000 the text shows
  \<open>2.00s\<close>, and \<open>1.50s\<close> occurs nowhere in it.\<close>

theorem lcp_example_counterexample:
  "lcpMessage (Obj example_metrics) [] =
     ([Recommendation (white_circle @ '' **LCP:** Good (2.00s). Aim for < 2.5s.'') Good], None)
   \<and> \<not> includes_str (white_circle @ '' **LCP:** Good (2.00s). Aim for < 2.5s.'') ''1.50s''"
  by code_simp

text \<open>C1 does not hold: the payload whose metrics item has no
  \<open>cumulativeLayoutShift\<close> makes \<open>cls.toFixed(3)\<close> throw a \<open>TypeError\<close> after the
  score card, the header and the LCP recommendation have been appended; and the empty
  object, which has no \<open>lighthouseResult\<close>, makes the read of \<open>audits\<close> throw at
  once.\<close>

theorem processApiData_throws:
  "processApiData payload_without_cls =
     ([ScoreCard ''Performance Score'' ''#ffa726'' ''50'',
       Recommendation (green_circle @ '' **Core Web Vitals Check**'') Good,
       Recommendation (white_circle @ '' **LCP:** Good (2.00s). Aim for < 2.5s.'') Good],
      Some TypeError)
   \<and> processApiData (Obj []) = ([], Some TypeError)"
  by code_simp

end
